theory Spec2Isabelle
  imports Complex_Main "HOL-Library.Word"
begin

section \<open>Go numeric types used by the handlers\<close>

text \<open>
  The handlers compute with two Go types: \<^verbatim>\<open>int\<close> (64 bits on the platforms the
  server targets) and \<^verbatim>\<open>float64\<close> (IEEE 754 binary64).  A finite binary64 value is
  written \<open>Finite m e\<close> and stands for the rational number \<open>m * 2 ^ e\<close>; the
  representation is not normalised, and the sign of zero is not kept (no handler
  distinguishes \<open>-0\<close> from \<open>0\<close>).  Every arithmetic result is rounded to the nearest
  binary64 value, ties to even, with 53 bits of precision, the least exponent
  \<open>-1074\<close> of the subnormal range, and overflow to an infinity (of a result that is not
  zero).
\<close>

datatype float64 = Finite int int | PInf | NInf | NaN

fun bit_length :: "nat \<Rightarrow> nat" where
  "bit_length n = (if n = 0 then 0 else Suc (bit_length (n div 2)))"

declare bit_length.simps [simp del]

definition valof :: "float64 \<Rightarrow> rat" where
  "valof x = (case x of
      Finite m e \<Rightarrow> (if 0 \<le> e then of_int m * 2 ^ nat e else of_int m / 2 ^ nat (- e))
    | _ \<Rightarrow> 0)"

text \<open>\<open>round_half_even a k\<close> is \<open>a / 2 ^ k\<close> rounded to the nearest integer, ties to even,
  for \<open>a \<ge> 0\<close>.\<close>

definition round_half_even :: "int \<Rightarrow> nat \<Rightarrow> int" where
  "round_half_even a k =
     (let q = a div 2 ^ k; r = a mod 2 ^ k
      in if 2 ^ k < 2 * r \<or> (2 * r = 2 ^ k \<and> odd q) then q + 1 else q)"

text \<open>\<open>f64_round m e\<close> is the binary64 value nearest to the exact number \<open>m * 2 ^ e\<close>.\<close>

definition f64_round :: "int \<Rightarrow> int \<Rightarrow> float64" where
  "f64_round m e =
     (let a = \<bar>m\<bar>;
          n = int (bit_length (nat a));
          e' = max (e + n - 53) (- 1074);
          q = (if e' \<le> e then a else round_half_even a (nat (e' - e)));
          e'' = (if e' \<le> e then e else e')
      in if q \<noteq> 0 \<and> 1024 < int (bit_length (nat q)) + e''
         then (if m < 0 then NInf else PInf)
         else Finite (sgn m * q) e'')"

text \<open>The Go operator \<^verbatim>\<open>*\<close> on \<^verbatim>\<open>float64\<close>.\<close>

fun f64_mul :: "float64 \<Rightarrow> float64 \<Rightarrow> float64" where
  "f64_mul (Finite m1 e1) (Finite m2 e2) = f64_round (m1 * m2) (e1 + e2)"
| "f64_mul NaN _ = NaN"
| "f64_mul _ NaN = NaN"
| "f64_mul (Finite m e) PInf = (if m = 0 then NaN else if m < 0 then NInf else PInf)"
| "f64_mul (Finite m e) NInf = (if m = 0 then NaN else if m < 0 then PInf else NInf)"
| "f64_mul PInf (Finite m e) = (if m = 0 then NaN else if m < 0 then NInf else PInf)"
| "f64_mul NInf (Finite m e) = (if m = 0 then NaN else if m < 0 then PInf else NInf)"
| "f64_mul PInf PInf = PInf"
| "f64_mul PInf NInf = NInf"
| "f64_mul NInf PInf = NInf"
| "f64_mul NInf NInf = PInf"

text \<open>Addition and subtraction of binary64 values, as SQLite does them in C on the type
  \<^verbatim>\<open>double\<close>: the exact sum, rounded.\<close>

fun f64_neg :: "float64 \<Rightarrow> float64" where
  "f64_neg (Finite m e) = Finite (- m) e"
| "f64_neg PInf = NInf"
| "f64_neg NInf = PInf"
| "f64_neg NaN = NaN"

fun f64_add :: "float64 \<Rightarrow> float64 \<Rightarrow> float64" where
  "f64_add (Finite m1 e1) (Finite m2 e2) =
     (let e = min e1 e2 in f64_round (m1 * 2 ^ nat (e1 - e) + m2 * 2 ^ nat (e2 - e)) e)"
| "f64_add NaN _ = NaN"
| "f64_add _ NaN = NaN"
| "f64_add PInf NInf = NaN"
| "f64_add NInf PInf = NaN"
| "f64_add PInf _ = PInf"
| "f64_add _ PInf = PInf"
| "f64_add NInf _ = NInf"
| "f64_add _ NInf = NInf"

definition f64_sub :: "float64 \<Rightarrow> float64 \<Rightarrow> float64" where
  "f64_sub x y = f64_add x (f64_neg y)"

text \<open>The value of a binary64 number when it is an integer.\<close>

definition f64_integer :: "float64 \<Rightarrow> int option" where
  "f64_integer x = (case x of
      Finite m e \<Rightarrow>
        (if 0 \<le> e then Some (m * 2 ^ nat e)
         else if m mod 2 ^ nat (- e) = 0 then Some (m div 2 ^ nat (- e)) else None)
    | _ \<Rightarrow> None)"

text \<open>The Go comparison \<^verbatim>\<open>x <= 0\<close> on \<^verbatim>\<open>float64\<close> (false on NaN).\<close>

fun f64_le_zero :: "float64 \<Rightarrow> bool" where
  "f64_le_zero (Finite m e) = (m \<le> 0)"
| "f64_le_zero NInf = True"
| "f64_le_zero PInf = False"
| "f64_le_zero NaN = False"

text \<open>The Go conversion \<^verbatim>\<open>float64(i)\<close> of an \<^verbatim>\<open>int\<close>.\<close>

definition float64_of_int :: "int \<Rightarrow> float64" where
  "float64_of_int i = f64_round i 0"

text \<open>
  The Go conversion \<^verbatim>\<open>int(x)\<close> of a \<^verbatim>\<open>float64\<close> discards the fraction (truncation
  towards zero).  When the truncated value does not fit the 64-bit \<^verbatim>\<open>int\<close>, the language
  leaves the result to the implementation; whatever it is, it is a 64-bit integer.  The
  model takes the value the amd64 instruction produces there, \<open>- 2 ^ 63\<close>.
\<close>

definition int64_indefinite :: int where
  "int64_indefinite = - (2 ^ 63)"

definition int_of_float64 :: "float64 \<Rightarrow> int" where
  "int_of_float64 x = (case x of
      Finite m e \<Rightarrow>
        (let t = (if 0 \<le> e then m * 2 ^ nat e else sgn m * (\<bar>m\<bar> div 2 ^ nat (- e)))
         in if - (2 ^ 63) \<le> t \<and> t < 2 ^ 63 then t else int64_indefinite)
    | _ \<Rightarrow> int64_indefinite)"

section \<open>Points calculation\<close>

text \<open>The rate table \<^verbatim>\<open>materialRates\<close>, points per kilogram.\<close>

definition materialRates :: "string \<rightharpoonup> int" where
  "materialRates = map_of [(''plastic'', 10), (''glass'', 8), (''metal'', 15), (''paper'', 5)]"

definition CalculatePoints :: "string \<Rightarrow> float64 \<Rightarrow> int" where
  "CalculatePoints itemType weight =
     (case materialRates itemType of
        None \<Rightarrow> 0
      | Some rate \<Rightarrow> int_of_float64 (f64_mul weight (float64_of_int rate)))"

section \<open>Numbers stored by SQLite\<close>

text \<open>
  The column \<^verbatim>\<open>users.total_points\<close> is declared \<^verbatim>\<open>INTEGER\<close>, which in SQLite is an
  affinity and not a type: the column holds a 64-bit integer, or a \<^verbatim>\<open>REAL\<close> (binary64)
  when a value does not fit, or \<^verbatim>\<open>NULL\<close>.
\<close>

datatype sql_num = SqlInt "64 word" | SqlReal float64 | SqlNull

definition in_int64 :: "int \<Rightarrow> bool" where
  "in_int64 i \<longleftrightarrow> - (2 ^ 63) \<le> i \<and> i < 2 ^ 63"

text \<open>
  Storing a \<^verbatim>\<open>REAL\<close> result in a column of \<^verbatim>\<open>INTEGER\<close> affinity: a value that is an
  integer strictly between the least and the greatest 64-bit integer is stored as that
  integer, any other value stays a \<^verbatim>\<open>REAL\<close>; a NaN result is \<^verbatim>\<open>NULL\<close>.
\<close>

definition store_real :: "float64 \<Rightarrow> sql_num" where
  "store_real x =
     (if x = NaN then SqlNull
      else (case f64_integer x of
          Some v \<Rightarrow> if - (2 ^ 63) < v \<and> v < 2 ^ 63 - 1 then SqlInt (word_of_int v) else SqlReal x
        | None \<Rightarrow> SqlReal x))"

text \<open>
  The SQL expressions \<^verbatim>\<open>total_points + ?\<close> and \<^verbatim>\<open>total_points - ?\<close> with a Go \<^verbatim>\<open>int\<close>
  bound to the parameter.  Two integers are added as integers; when the result leaves
  the 64-bit range, and whenever the column holds a \<^verbatim>\<open>REAL\<close>, both operands are
  converted to \<^verbatim>\<open>double\<close> and added there.
\<close>

definition sql_add :: "sql_num \<Rightarrow> int \<Rightarrow> sql_num" where
  "sql_add x p = (case x of
      SqlNull \<Rightarrow> SqlNull
    | SqlInt a \<Rightarrow>
        (if in_int64 (sint a + p) then SqlInt (word_of_int (sint a + p))
         else store_real (f64_add (float64_of_int (sint a)) (float64_of_int p)))
    | SqlReal r \<Rightarrow> store_real (f64_add r (float64_of_int p)))"

definition sql_sub :: "sql_num \<Rightarrow> int \<Rightarrow> sql_num" where
  "sql_sub x p = (case x of
      SqlNull \<Rightarrow> SqlNull
    | SqlInt a \<Rightarrow>
        (if in_int64 (sint a - p) then SqlInt (word_of_int (sint a - p))
         else store_real (f64_sub (float64_of_int (sint a)) (float64_of_int p)))
    | SqlReal r \<Rightarrow> store_real (f64_sub r (float64_of_int p)))"

text \<open>
  \<^verbatim>\<open>Scan\<close> of the column into a Go \<^verbatim>\<open>int\<close>, with the error dropped as the handlers write
  it.  An integer is read as it is.  A \<^verbatim>\<open>REAL\<close> of this column is never an integer of the
  64-bit range, so its text does not parse as an \<^verbatim>\<open>int\<close>; \<^verbatim>\<open>Scan\<close> fails on it and on
  \<^verbatim>\<open>NULL\<close>, and the destination keeps its zero value.
\<close>

definition scan_int :: "sql_num \<Rightarrow> int" where
  "scan_int x = (case x of SqlInt a \<Rightarrow> sint a | _ \<Rightarrow> 0)"

section \<open>Database state\<close>

text \<open>
  The SQLite tables the handlers read and write, each a list of rows in insertion order.
  Columns that no handler reads back (\<^verbatim>\<open>password\<close>, \<^verbatim>\<open>created_at\<close>, \<^verbatim>\<open>updated_at\<close>,
  \<^verbatim>\<open>timestamp\<close>) are left out, and so are the tables \<^verbatim>\<open>sessions\<close>, \<^verbatim>\<open>login_sessions\<close>
  and \<^verbatim>\<open>stations\<close>, which only the login handlers and the station status handlers
  touch.  The balance \<^verbatim>\<open>total_points\<close>, the one column the handlers do arithmetic on, is
  a number as SQLite stores it; the ids and \<^verbatim>\<open>points_earned\<close>, which are written from a Go
  \<^verbatim>\<open>int\<close> and never computed in SQL, are integers; \<^verbatim>\<open>REAL\<close> columns are binary64
  values, a nullable column is an \<open>option\<close>.  A point in time is a number of
  nanoseconds.
\<close>

type_synonym time = int

record user_row =
  u_id :: int
  u_email :: string
  u_full_name :: string
  u_total_points :: sql_num

record transaction_row =
  t_id :: int
  t_user_id :: int
  t_type :: string
  t_amount :: float64
  t_item_type :: string
  t_weight :: float64
  t_points_earned :: int
  t_station_id :: int
  t_session_token :: "string option"

record redemption_row =
  r_id :: int
  r_user_id :: int
  r_points_used :: int
  r_amount_cash :: float64
  r_method :: string
  r_status :: string
  r_account_info :: string

record station_session_row =
  ss_id :: int
  ss_session_token :: string
  ss_station_id :: string
  ss_user_id :: "int option"
  ss_status :: string
  ss_auth_token :: "string option"
  ss_expires_at :: time
  ss_ended_at :: "time option"

record db =
  users :: "user_row list"
  transactions :: "transaction_row list"
  redemptions :: "redemption_row list"
  station_sessions :: "station_session_row list"

definition empty_db :: db where
  "empty_db = \<lparr>users = [], transactions = [], redemptions = [], station_sessions = []\<rparr>"

text \<open>\<^verbatim>\<open>INTEGER PRIMARY KEY AUTOINCREMENT\<close>: one more than the largest id so far (no
  handler deletes a row of these tables).\<close>

definition next_id :: "int list \<Rightarrow> int" where
  "next_id ids = fold max ids 0 + 1"

text \<open>\<^verbatim>\<open>SELECT ... FROM users WHERE id = ?\<close>\<close>

definition select_user :: "db \<Rightarrow> int \<Rightarrow> user_row option" where
  "select_user s uid = find (\<lambda>u. u_id u = uid) (users s)"

text \<open>\<^verbatim>\<open>var totalPoints int; QueryRow("SELECT total_points FROM users WHERE id = ?").Scan(&totalPoints)\<close>
  with the error dropped, as the handlers write it: the variable keeps its zero value
  when there is no row, and when the column does not scan into an \<^verbatim>\<open>int\<close>.\<close>

definition select_total_points :: "db \<Rightarrow> int \<Rightarrow> int" where
  "select_total_points s uid =
     (case select_user s uid of None \<Rightarrow> 0 | Some u \<Rightarrow> scan_int (u_total_points u))"

text \<open>\<^verbatim>\<open>SELECT ... FROM station_sessions WHERE session_token = ?\<close>\<close>

definition select_session :: "db \<Rightarrow> string \<Rightarrow> station_session_row option" where
  "select_session s tok = find (\<lambda>x. ss_session_token x = tok) (station_sessions s)"

text \<open>\<^verbatim>\<open>UPDATE users SET total_points = total_points + ? WHERE id = ?\<close>\<close>

definition add_total_points :: "int \<Rightarrow> int \<Rightarrow> user_row list \<Rightarrow> user_row list" where
  "add_total_points uid p us =
     map (\<lambda>u. if u_id u = uid then u\<lparr>u_total_points := sql_add (u_total_points u) p\<rparr> else u)
       us"

text \<open>\<^verbatim>\<open>UPDATE users SET total_points = total_points - ? WHERE id = ?\<close>\<close>

definition sub_total_points :: "int \<Rightarrow> int \<Rightarrow> user_row list \<Rightarrow> user_row list" where
  "sub_total_points uid p us =
     map (\<lambda>u. if u_id u = uid then u\<lparr>u_total_points := sql_sub (u_total_points u) p\<rparr> else u)
       us"

text \<open>\<^verbatim>\<open>UPDATE station_sessions SET status = ? WHERE id = ?\<close>\<close>

definition set_session_status ::
  "int \<Rightarrow> string \<Rightarrow> station_session_row list \<Rightarrow> station_session_row list" where
  "set_session_status sid st xs =
     map (\<lambda>x. if ss_id x = sid then x\<lparr>ss_status := st\<rparr> else x) xs"

text \<open>\<^verbatim>\<open>INSERT OR IGNORE INTO users (id, email, ...)\<close>: the row is dropped when its primary key
  or its unique email is taken.\<close>

definition insert_or_ignore_user :: "user_row \<Rightarrow> user_row list \<Rightarrow> user_row list" where
  "insert_or_ignore_user u us =
     (if u_id u \<in> set (map u_id us) \<or> u_email u \<in> set (map u_email us) then us else us @ [u])"

text \<open>\<^verbatim>\<open>InitDB\<close> creates the tables if they do not exist and inserts the two seeded users.\<close>

definition InitDB :: "db \<Rightarrow> db" where
  "InitDB s = s\<lparr>users :=
     insert_or_ignore_user
       \<lparr>u_id = 2, u_email = ''demo@trash2cash.com'', u_full_name = ''Demo User'',
        u_total_points = SqlInt 2500\<rparr>
       (insert_or_ignore_user
          \<lparr>u_id = 1, u_email = ''dummy@trash2cash.com'', u_full_name = ''Dummy User'',
           u_total_points = SqlInt 1000\<rparr>
          (users s))\<rparr>"

section \<open>Requests and responses\<close>

record SessionDepositRequest =
  sd_Material :: string
  sd_Weight :: float64
  sd_SessionToken :: string

record DepositRequest =
  d_ItemType :: string
  d_Weight :: float64

record RedeemRequest =
  rd_Points :: int
  rd_Method :: string
  rd_AccountInfo :: string

record ConnectSessionRequest =
  cs_SessionToken :: string
  cs_AuthToken :: string

record RegisterRequest =
  rg_Email :: string
  rg_Password :: string
  rg_FullName :: string

text \<open>The \<^verbatim>\<open>Data\<close> field of a \<^verbatim>\<open>Response\<close>, one constructor for each shape a handler
  sends.\<close>

datatype payload =
    NoData
  | SessionRequested string int
  | SessionPending
  | DepositRecorded int int int
  | TransactionCreated int int int
  | DepositProcessed int string float64 int int
  | Redeemed int int float64 string int
  | Registered int string string

text \<open>
  \<open>Failure code error\<close> is \<^verbatim>\<open>respondJSON(w, code, Response{Success: false, Error: error})\<close>,
  \<open>Success code message data\<close> is the response with \<^verbatim>\<open>Success: true\<close>.
  \<^item> \<open>SessionRequested sessionToken expiresAt\<close>, with \<^verbatim>\<open>expiresAt\<close> in whole seconds, as
    \<^verbatim>\<open>Format(time.RFC3339)\<close> prints it (the QR image is not modelled)
  \<^item> \<open>DepositRecorded newBalance pointsEarned transactionId\<close>
  \<^item> \<open>TransactionCreated id points_earned total_points\<close>
  \<^item> \<open>DepositProcessed id item_type weight points_earned total_points\<close>
  \<^item> \<open>Redeemed id points_redeemed amount_cash method remaining_points\<close>
  \<^item> \<open>Registered id email full_name\<close>
\<close>

datatype response = Failure nat string | Success nat string payload

section \<open>The handlers\<close>

text \<open>
  Each handler takes the database and the decoded request and returns its response and
  the database it leaves.  What the handler gets from outside is an argument:
  \<^item> \<open>hdr\<close>, the result of \<^verbatim>\<open>getUserIDFromHeader\<close>: \<open>Some userID\<close>, or \<open>None\<close> when the
    header does not parse;
  \<^item> the body, \<open>None\<close> when \<^verbatim>\<open>json.NewDecoder(r.Body).Decode\<close> fails;
  \<^item> \<open>now\<close>, the value of \<^verbatim>\<open>time.Now()\<close>;
  \<^item> \<open>verifyJWT\<close>, the credential check of \<^verbatim>\<open>connectSession\<close>, which depends on the
    signing library: \<open>None\<close> for a rejected token, the user id otherwise;
  \<^item> the fresh token \<^verbatim>\<open>uuid.New().String()\<close> of \<^verbatim>\<open>requestSession\<close>.
  A failing SQL statement is modelled where the schema makes it fail (a \<^verbatim>\<open>UNIQUE\<close>
  constraint, a column the table does not have); the other \<^verbatim>\<open>500\<close> branches, taken when
  the database itself fails, roll the deferred transaction back and are left out.  SQLite
  does not enforce the \<^verbatim>\<open>FOREIGN KEY\<close> clauses unless asked to, and \<^verbatim>\<open>InitDB\<close> does not
  ask.  A handler is one step on the database, except \<^verbatim>\<open>connectSession\<close>, whose two
  statements are two steps.
\<close>

definition minute :: int where
  "minute = 60 * 1000000000"

definition requestSession :: "db \<Rightarrow> time \<Rightarrow> string \<Rightarrow> string \<Rightarrow> response \<times> db" where
  "requestSession s now sessionToken reqStationID =
     (let expiresAt = now + 5 * minute;
          stationID = (if reqStationID = [] then ''default'' else reqStationID)
      in if sessionToken \<in> set (map ss_session_token (station_sessions s))
         then (Failure 500 ''Failed to create session'', s)
         else (Success 200 ''Session token generated''
                 (SessionRequested sessionToken (expiresAt div 1000000000)),
               s\<lparr>station_sessions := station_sessions s @
                  [\<lparr>ss_id = next_id (map ss_id (station_sessions s)),
                    ss_session_token = sessionToken, ss_station_id = stationID,
                    ss_user_id = None, ss_status = ''pending'', ss_auth_token = None,
                    ss_expires_at = expiresAt, ss_ended_at = None\<rparr>]\<rparr>))"

text \<open>
  For a connected session \<^verbatim>\<open>checkSession\<close> selects the column \<^verbatim>\<open>name\<close> of \<^verbatim>\<open>users\<close>.  The
  table that \<^verbatim>\<open>InitDB\<close> creates has no such column (it has \<^verbatim>\<open>full_name\<close>), so the query
  fails and the handler answers 500.
\<close>

definition checkSession :: "db \<Rightarrow> time \<Rightarrow> string option \<Rightarrow> response \<times> db" where
  "checkSession s now body =
     (case body of
        None \<Rightarrow> (Failure 400 ''Invalid request body'', s)
      | Some sessionToken \<Rightarrow>
          if sessionToken = [] then (Failure 400 ''Session token is required'', s)
          else (case select_session s sessionToken of
              None \<Rightarrow> (Failure 404 ''Session not found'', s)
            | Some row \<Rightarrow>
                if ss_expires_at row < now
                then (Failure 401 ''Session has expired'',
                      s\<lparr>station_sessions :=
                          set_session_status (ss_id row) ''expired'' (station_sessions s)\<rparr>)
                else if ss_status row = ''pending'' \<or> ss_user_id row = None
                then (Success 200 [] SessionPending, s)
                else (Failure 500 ''Failed to retrieve user details'', s)))"

text \<open>
  \<^verbatim>\<open>connectSession\<close> runs two statements on the database, outside any transaction: the
  \<^verbatim>\<open>SELECT\<close> that reads the session, and the \<^verbatim>\<open>UPDATE ... WHERE id = ?\<close> that binds it.
  Requests are served concurrently, so statements of other requests may run between the
  two.  \<open>connectSession_select\<close> is the handler up to its decision: a failure response, or
  the session id, the user id and the credential that the \<^verbatim>\<open>UPDATE\<close> will write.
  \<open>connectSession_update\<close> is the \<^verbatim>\<open>UPDATE\<close> and the response after it.
  \<open>connectSession\<close> is the run of the handler with no other statement in between.
\<close>

definition connectSession_select ::
  "db \<Rightarrow> time \<Rightarrow> (string \<Rightarrow> int option) \<Rightarrow> ConnectSessionRequest option
   \<Rightarrow> response + int \<times> int \<times> string" where
  "connectSession_select s now verifyJWT body =
     (case body of
        None \<Rightarrow> Inl (Failure 400 ''Invalid request body'')
      | Some req \<Rightarrow>
          if cs_SessionToken req = [] \<or> cs_AuthToken req = []
          then Inl (Failure 400 ''Session token and auth token are required'')
          else (case verifyJWT (cs_AuthToken req) of
              None \<Rightarrow> Inl (Failure 401 ''Invalid auth token'')
            | Some userID \<Rightarrow>
                (case select_session s (cs_SessionToken req) of
                   None \<Rightarrow> Inl (Failure 404 ''Session not found'')
                 | Some row \<Rightarrow>
                     if ss_expires_at row < now then Inl (Failure 401 ''Session has expired'')
                     else if ss_user_id row \<noteq> None
                     then Inl (Failure 409 ''Session is already connected to a user'')
                     else Inr (ss_id row, userID, cs_AuthToken req))))"

definition connectSession_update :: "db \<Rightarrow> int \<times> int \<times> string \<Rightarrow> response \<times> db" where
  "connectSession_update s d =
     (case d of (sessionID, userID, authToken) \<Rightarrow>
        (Success 200 ''User connected to station session'' NoData,
         s\<lparr>station_sessions :=
             map (\<lambda>x. if ss_id x = sessionID
                       then x\<lparr>ss_user_id := Some userID, ss_auth_token := Some authToken,
                              ss_status := ''connected''\<rparr>
                       else x)
                 (station_sessions s)\<rparr>))"

definition connectSession ::
  "db \<Rightarrow> time \<Rightarrow> (string \<Rightarrow> int option) \<Rightarrow> ConnectSessionRequest option \<Rightarrow> response \<times> db" where
  "connectSession s now verifyJWT body =
     (case connectSession_select s now verifyJWT body of
        Inl failure \<Rightarrow> (failure, s)
      | Inr d \<Rightarrow> connectSession_update s d)"

text \<open>\<^verbatim>\<open>UPDATE station_sessions SET status = 'expired', ended_at = now WHERE session_token = ?\<close>;
  \<^verbatim>\<open>RowsAffected\<close> counts the rows the \<^verbatim>\<open>WHERE\<close> clause selects.\<close>

definition endSession :: "db \<Rightarrow> time \<Rightarrow> string option \<Rightarrow> response \<times> db" where
  "endSession s now body =
     (case body of
        None \<Rightarrow> (Failure 400 ''Invalid request body'', s)
      | Some sessionToken \<Rightarrow>
          if sessionToken = [] then (Failure 400 ''Session token is required'', s)
          else (let rowsAffected =
                      length (filter (\<lambda>x. ss_session_token x = sessionToken) (station_sessions s));
                    s' = s\<lparr>station_sessions :=
                           map (\<lambda>x. if ss_session_token x = sessionToken
                                     then x\<lparr>ss_status := ''expired'', ss_ended_at := Some now\<rparr>
                                     else x)
                               (station_sessions s)\<rparr>
                in if rowsAffected = 0 then (Failure 404 ''Session not found'', s')
                   else (Success 200 ''Session ended'' NoData, s')))"

definition deposit ::
  "db \<Rightarrow> int option \<Rightarrow> SessionDepositRequest option \<Rightarrow> response \<times> db" where
  "deposit s hdr body =
     (case hdr of
        None \<Rightarrow> (Failure 401 ''Invalid user authentication'', s)
      | Some userID \<Rightarrow>
     (case body of
        None \<Rightarrow> (Failure 400 ''Invalid request body'', s)
      | Some req \<Rightarrow>
          if sd_Material req = [] \<or> f64_le_zero (sd_Weight req) \<or> sd_SessionToken req = []
          then (Failure 400 ''Material, weight, and session token are required'', s)
          else (case select_session s (sd_SessionToken req) of
              None \<Rightarrow> (Failure 404 ''Session not found'', s)
            | Some row \<Rightarrow>
                if ss_user_id row \<noteq> Some userID
                then (Failure 403 ''Session not linked to this user'', s)
                else (let points = CalculatePoints (sd_Material req) (sd_Weight req)
                      in if points = 0 then (Failure 400 ''Invalid material type'', s)
                         else (let transactionID = next_id (map t_id (transactions s));
                                   s' = s\<lparr>transactions := transactions s @
                                            [\<lparr>t_id = transactionID, t_user_id = userID,
                                              t_type = ''deposit'', t_amount = Finite 0 0,
                                              t_item_type = sd_Material req,
                                              t_weight = sd_Weight req,
                                              t_points_earned = points, t_station_id = 1,
                                              t_session_token = Some (sd_SessionToken req)\<rparr>],
                                          users := add_total_points userID points (users s),
                                          station_sessions :=
                                            set_session_status (ss_id row) ''active''
                                              (station_sessions s)\<rparr>
                               in (Success 200 ''Deposit recorded successfully''
                                     (DepositRecorded (select_total_points s' userID) points
                                        transactionID), s'))))))"

definition createTransaction ::
  "db \<Rightarrow> int option \<Rightarrow> DepositRequest option \<Rightarrow> response \<times> db" where
  "createTransaction s hdr body =
     (case hdr of
        None \<Rightarrow> (Failure 401 ''Invalid user'', s)
      | Some userID \<Rightarrow>
     (case body of
        None \<Rightarrow> (Failure 400 ''Invalid request body'', s)
      | Some req \<Rightarrow>
          (let points = CalculatePoints (d_ItemType req) (d_Weight req)
           in if points = 0 then (Failure 400 ''Invalid item type'', s)
              else (let txID = next_id (map t_id (transactions s));
                        s' = s\<lparr>transactions := transactions s @
                                 [\<lparr>t_id = txID, t_user_id = userID, t_type = ''deposit'',
                                   t_amount = Finite 0 0, t_item_type = d_ItemType req,
                                   t_weight = d_Weight req, t_points_earned = points,
                                   t_station_id = 1, t_session_token = None\<rparr>],
                               users := add_total_points userID points (users s)\<rparr>
                    in (Success 201 ''Transaction successful''
                          (TransactionCreated txID points (select_total_points s' userID)),
                        s')))))"

text \<open>The response of \<^verbatim>\<open>processDeposit\<close> also carries \<^verbatim>\<open>time.Now()\<close>, which is left out.\<close>

definition processDeposit ::
  "db \<Rightarrow> int option \<Rightarrow> DepositRequest option \<Rightarrow> response \<times> db" where
  "processDeposit s hdr body =
     (case hdr of
        None \<Rightarrow> (Failure 401 ''Invalid user'', s)
      | Some userID \<Rightarrow>
     (case body of
        None \<Rightarrow> (Failure 400 ''Invalid request body'', s)
      | Some req \<Rightarrow>
          (let points = CalculatePoints (d_ItemType req) (d_Weight req)
           in if points = 0 then (Failure 400 ''Invalid item type'', s)
              else (let depositID = next_id (map t_id (transactions s));
                        s' = s\<lparr>transactions := transactions s @
                                 [\<lparr>t_id = depositID, t_user_id = userID, t_type = ''deposit'',
                                   t_amount = Finite 0 0, t_item_type = d_ItemType req,
                                   t_weight = d_Weight req, t_points_earned = points,
                                   t_station_id = 1, t_session_token = None\<rparr>],
                               users := add_total_points userID points (users s)\<rparr>
                    in (Success 201 ''Deposit processed successfully''
                          (DepositProcessed depositID (d_ItemType req) (d_Weight req) points
                             (select_total_points s' userID)),
                        s')))))"

definition redeemPoints ::
  "db \<Rightarrow> int option \<Rightarrow> RedeemRequest option \<Rightarrow> response \<times> db" where
  "redeemPoints s hdr body =
     (case hdr of
        None \<Rightarrow> (Failure 401 ''Invalid user'', s)
      | Some userID \<Rightarrow>
     (case body of
        None \<Rightarrow> (Failure 400 ''Invalid request body'', s)
      | Some req \<Rightarrow>
          if rd_Points req \<le> 0 then (Failure 400 ''Invalid points amount'', s)
          else if select_total_points s userID < rd_Points req
          then (Failure 400 ''Insufficient points'', s)
          else (let amountCash = f64_mul (float64_of_int (rd_Points req)) (Finite 10 0);
                    redemptionID = next_id (map r_id (redemptions s));
                    s' = s\<lparr>redemptions := redemptions s @
                             [\<lparr>r_id = redemptionID, r_user_id = userID,
                               r_points_used = rd_Points req, r_amount_cash = amountCash,
                               r_method = rd_Method req, r_status = ''pending'',
                               r_account_info = rd_AccountInfo req\<rparr>],
                           users := sub_total_points userID (rd_Points req) (users s),
                           transactions := transactions s @
                             [\<lparr>t_id = next_id (map t_id (transactions s)), t_user_id = userID,
                               t_type = ''redemption'', t_amount = amountCash,
                               t_item_type = ''redemption'', t_weight = Finite 0 0,
                               t_points_earned = - rd_Points req, t_station_id = 1,
                               t_session_token = None\<rparr>]\<rparr>
                in (Success 201 ''Redemption successful''
                      (Redeemed redemptionID (rd_Points req) amountCash (rd_Method req)
                         (select_total_points s' userID)),
                    s'))))"

text \<open>\<^verbatim>\<open>register\<close>: the \<^verbatim>\<open>INSERT\<close> fails on a taken email (\<^verbatim>\<open>UNIQUE\<close>); password hashing
  is not modelled.\<close>

definition register :: "db \<Rightarrow> RegisterRequest option \<Rightarrow> response \<times> db" where
  "register s body =
     (case body of
        None \<Rightarrow> (Failure 400 ''Invalid request body'', s)
      | Some req \<Rightarrow>
          if rg_Email req = [] \<or> rg_Password req = [] \<or> rg_FullName req = []
          then (Failure 400 ''Email, password, and full name are required'', s)
          else if rg_Email req \<in> set (map u_email (users s))
          then (Failure 409 ''Email already exists'', s)
          else (let userID = next_id (map u_id (users s))
                in (Success 201 ''Registration successful''
                      (Registered userID (rg_Email req) (rg_FullName req)),
                    s\<lparr>users := users s @
                       [\<lparr>u_id = userID, u_email = rg_Email req,
                         u_full_name = rg_FullName req, u_total_points = SqlInt 0\<rparr>]\<rparr>)))"

text \<open>\<^verbatim>\<open>updateUserProfile\<close> updates the column \<^verbatim>\<open>name\<close> of \<^verbatim>\<open>users\<close>, which the table does
  not have: the statement fails, nothing is written and the handler answers 500.\<close>

definition updateUserProfile :: "db \<Rightarrow> int option \<Rightarrow> string option \<Rightarrow> response \<times> db" where
  "updateUserProfile s hdr body =
     (case hdr of
        None \<Rightarrow> (Failure 401 ''Invalid user'', s)
      | Some userID \<Rightarrow>
     (case body of
        None \<Rightarrow> (Failure 400 ''Invalid request body'', s)
      | Some name \<Rightarrow> (Failure 500 ''Failed to update profile'', s)))"

section \<open>Reachable states\<close>

text \<open>
  The handlers behind \<^verbatim>\<open>authMiddleware\<close> run only on a token the server signed, and
  \<^verbatim>\<open>login\<close> signs a token only for a row of \<^verbatim>\<open>users\<close>: the id in the header, when it
  parses, is the id of a registered user.
\<close>

definition authenticated :: "db \<Rightarrow> int option \<Rightarrow> bool" where
  "authenticated s hdr =
     (case hdr of None \<Rightarrow> True | Some userID \<Rightarrow> userID \<in> set (map u_id (users s)))"

text \<open>
  One step of the server: a restart of the process, which runs \<^verbatim>\<open>InitDB\<close> again, or one
  request served by the router.  For \<^verbatim>\<open>connectSession\<close> the \<^verbatim>\<open>UPDATE\<close> is a step of its
  own, with whatever decision an earlier \<^verbatim>\<open>SELECT\<close> of the request took.  The login
  handlers are not steps: they write the table \<^verbatim>\<open>sessions\<close> only.
\<close>

inductive step :: "db \<Rightarrow> db \<Rightarrow> bool" where
  restart: "step s (InitDB s)"
| do_register: "step s (snd (register s body))"
| do_updateUserProfile: "authenticated s hdr \<Longrightarrow> step s (snd (updateUserProfile s hdr name))"
| do_requestSession: "step s (snd (requestSession s now tok station))"
| do_checkSession: "step s (snd (checkSession s now tokb))"
| do_connectSession: "step s (snd (connectSession s now verifyJWT cbody))"
| do_connectSession_update: "step s (snd (connectSession_update s d))"
| do_endSession: "step s (snd (endSession s now tokb))"
| do_deposit: "authenticated s hdr \<Longrightarrow> step s (snd (deposit s hdr sbody))"
| do_createTransaction: "authenticated s hdr \<Longrightarrow> step s (snd (createTransaction s hdr dbody))"
| do_processDeposit: "authenticated s hdr \<Longrightarrow> step s (snd (processDeposit s hdr dbody))"
| do_redeemPoints: "authenticated s hdr \<Longrightarrow> step s (snd (redeemPoints s hdr rbody))"

text \<open>The states of the database: \<^verbatim>\<open>main\<close> runs \<^verbatim>\<open>InitDB\<close> on a fresh file, then the
  server takes steps in any order.\<close>

inductive reachable :: "db \<Rightarrow> bool" where
  start: "reachable (InitDB empty_db)"
| next_state: "reachable s \<Longrightarrow> step s s' \<Longrightarrow> reachable s'"

text \<open>The user a session is bound to, if any.\<close>

definition bound_user :: "db \<Rightarrow> string \<Rightarrow> int option" where
  "bound_user s tok = (case select_session s tok of None \<Rightarrow> None | Some row \<Rightarrow> ss_user_id row)"

section \<open>The ledger\<close>

text \<open>\<^verbatim>\<open>SELECT COALESCE(SUM(points_earned), 0) FROM transactions WHERE user_id = ?\<close>\<close>

definition ledger_sum :: "transaction_row list \<Rightarrow> int \<Rightarrow> int" where
  "ledger_sum ts uid = sum_list (map t_points_earned (filter (\<lambda>t. t_user_id t = uid) ts))"

text \<open>The balance a row of \<^verbatim>\<open>users\<close> is created with: \<^verbatim>\<open>InitDB\<close> seeds the users 1 and 2
  with 1000 and 2500 points, \<^verbatim>\<open>register\<close> inserts 0.\<close>

definition opening_points :: "int \<Rightarrow> int" where
  "opening_points uid = (if uid = 1 then 1000 else if uid = 2 then 2500 else 0)"

text \<open>The owner's deltas, in the order of the ledger.\<close>

definition ledger_deltas :: "transaction_row list \<Rightarrow> int \<Rightarrow> int list" where
  "ledger_deltas ts uid = map t_points_earned (filter (\<lambda>t. t_user_id t = uid) ts)"

text \<open>\<open>running_in_range b ds\<close>: starting from the balance \<open>b\<close> and adding the deltas \<open>ds\<close>
  one by one, every balance on the way is a 64-bit integer.\<close>

fun running_in_range :: "int \<Rightarrow> int list \<Rightarrow> bool" where
  "running_in_range b [] = in_int64 b"
| "running_in_range b (d # ds) = (in_int64 b \<and> running_in_range (b + d) ds)"

text \<open>No balance the owner ever had left the 64-bit range.\<close>

definition balance_in_range :: "db \<Rightarrow> int \<Rightarrow> bool" where
  "balance_in_range s uid =
     running_in_range (opening_points uid) (ledger_deltas (transactions s) uid)"

definition ledger_inv :: "db \<Rightarrow> bool" where
  "ledger_inv s \<longleftrightarrow>
     list_all (\<lambda>u. balance_in_range s (u_id u)
                \<longrightarrow> u_total_points u =
                  SqlInt (word_of_int
                    (opening_points (u_id u) + ledger_sum (transactions s) (u_id u))))
              (users s)
     \<and> list_all (\<lambda>t. t_user_id t \<in> set (map u_id (users s))) (transactions s)
     \<and> 1 \<in> set (map u_id (users s)) \<and> 2 \<in> set (map u_id (users s))"

text \<open>What a handler that writes the ledger does to the two tables: nothing, or one new
  entry for the caller together with the same change of the caller's balance.\<close>

definition writes_entry :: "db \<Rightarrow> int \<Rightarrow> db \<Rightarrow> bool" where
  "writes_entry s uid s' \<longleftrightarrow>
     s' = s \<or> (\<exists>t. users s' = add_total_points uid (t_points_earned t) (users s)
                  \<and> transactions s' = transactions s @ [t]
                  \<and> t_user_id t = uid \<and> t_points_earned t \<noteq> 0)"

section \<open>A pairing session, step by step\<close>

text \<open>
  The end-to-end run of a station session on a fresh database: the station requests a
  session at time 0, the seeded user 1 binds it at time 1, deposits 2 kg of metal, and
  the session is ended at time 3.  \<open>scenario_verifyJWT\<close> accepts one token for each of
  the two seeded users.
\<close>

definition scenario_verifyJWT :: "string \<Rightarrow> int option" where
  "scenario_verifyJWT t = (if t = ''jwt-1'' then Some 1 else if t = ''jwt-2'' then Some 2 else None)"

definition scenario_created :: db where
  "scenario_created = snd (requestSession (InitDB empty_db) 0 ''token-1'' [])"

definition scenario_bound :: db where
  "scenario_bound = snd (connectSession scenario_created 1 scenario_verifyJWT
     (Some \<lparr>cs_SessionToken = ''token-1'', cs_AuthToken = ''jwt-1''\<rparr>))"

definition scenario_deposited :: db where
  "scenario_deposited = snd (deposit scenario_bound (Some 1)
     (Some \<lparr>sd_Material = ''metal'', sd_Weight = Finite 2 0, sd_SessionToken = ''token-1''\<rparr>))"

definition scenario_ended :: db where
  "scenario_ended = snd (endSession scenario_deposited 3 (Some ''token-1''))"

text \<open>
  Two binds of the pending session in flight at once, by the seeded users 1 and 2: both
  \<^verbatim>\<open>SELECT\<close>s run on the pending session, then the \<^verbatim>\<open>UPDATE\<close> of user 1, then the
  \<^verbatim>\<open>UPDATE\<close> of user 2.
\<close>

definition race_first :: db where
  "race_first = snd (connectSession_update scenario_created (1, 1, ''jwt-1''))"

definition race_second :: db where
  "race_second = snd (connectSession_update race_first (1, 2, ''jwt-2''))"

text \<open>Two manual entries of \<open>9 * 10 ^ 17\<close> kg of plastic (the binary64 value
  \<open>6866455078125 * 2 ^ 17\<close>) by the seeded user 1 on a fresh database.\<close>

definition overflow_once :: db where
  "overflow_once = snd (createTransaction (InitDB empty_db) (Some 1)
     (Some \<lparr>d_ItemType = ''plastic'', d_Weight = Finite 6866455078125 17\<rparr>))"

definition overflow_twice :: db where
  "overflow_twice = snd (createTransaction overflow_once (Some 1)
     (Some \<lparr>d_ItemType = ''plastic'', d_Weight = Finite 6866455078125 17\<rparr>))"

section \<open>Evaluating binary64 arithmetic\<close>

lemma bit_length_0 [simp]: "bit_length 0 = 0"
  by (simp add: bit_length.simps)

lemma bit_length_Suc_0 [simp]: "bit_length (Suc 0) = 1"
  by (simp add: bit_length.simps)

lemma bit_length_One [simp]: "bit_length (numeral Num.One) = 1"
  by (subst bit_length.simps) simp

lemma bit_length_Bit0 [simp]:
  "bit_length (numeral (Num.Bit0 n)) = Suc (bit_length (numeral n))"
  by (subst bit_length.simps) simp

lemma bit_length_Bit1 [simp]:
  "bit_length (numeral (Num.Bit1 n)) = Suc (bit_length (numeral n))"
  by (subst bit_length.simps) simp

lemmas f64_eval = f64_round_def round_half_even_def float64_of_int_def int_of_float64_def
  int64_indefinite_def CalculatePoints_def materialRates_def Let_def

lemmas sql_eval = sql_add_def sql_sub_def store_real_def scan_int_def in_int64_def
  f64_sub_def f64_integer_def

lemma materialRates_cases: "materialRates k = Some r \<Longrightarrow> r \<in> {10, 8, 15, 5}"
  by (auto simp: materialRates_def split: if_splits)

lemma float64_of_rates:
  "float64_of_int 10 = Finite 10 0" "float64_of_int 8 = Finite 8 0"
  "float64_of_int 15 = Finite 15 0" "float64_of_int 5 = Finite 5 0"
  by (simp_all add: f64_eval)

lemma round_half_even_nonneg: "0 \<le> a \<Longrightarrow> 0 \<le> round_half_even a k"
  by (auto simp: round_half_even_def Let_def pos_imp_zdiv_nonneg_iff)

lemma f64_round_sign: "f64_round m e = Finite pm pe \<Longrightarrow> 0 \<le> m \<Longrightarrow> 0 \<le> pm"
  by (auto simp: f64_round_def Let_def sgn_if round_half_even_nonneg split: if_splits)

text \<open>On a value that is not negative and fits 64 bits, the conversion to \<^verbatim>\<open>int\<close> is the
  floor.\<close>

lemma int_of_float64_floor:
  assumes "0 \<le> pm" "valof (Finite pm pe) < 2 ^ 63"
  shows "int_of_float64 (Finite pm pe) = \<lfloor>valof (Finite pm pe)\<rfloor>"
proof -
  define t where
    "t = (if 0 \<le> pe then pm * 2 ^ nat pe else sgn pm * (\<bar>pm\<bar> div 2 ^ nat (- pe)))"
  have fl: "\<lfloor>valof (Finite pm pe)\<rfloor> = t"
  proof (cases "0 \<le> pe")
    case True
    have "valof (Finite pm pe) = of_int (pm * 2 ^ nat pe)"
      using True by (simp add: valof_def)
    then show ?thesis
      using True by (simp only: floor_of_int t_def if_True)
  next
    case False
    have "\<lfloor>valof (Finite pm pe)\<rfloor> = pm div 2 ^ nat (- pe)"
      using False floor_divide_of_int_eq [of pm "2 ^ nat (- pe)", where ?'a = rat]
      by (simp add: valof_def)
    then show ?thesis
      using False assms(1) by (simp add: t_def sgn_if)
  qed
  have "0 \<le> valof (Finite pm pe)"
    using assms(1) by (simp add: valof_def)
  then have lo: "0 \<le> t"
    using fl by (metis zero_le_floor)
  have "\<lfloor>valof (Finite pm pe)\<rfloor> < 2 ^ 63"
    using assms(2) by (simp add: floor_less_iff)
  then have hi: "t < 2 ^ 63"
    using fl by simp
  have "int_of_float64 (Finite pm pe) = t"
    using lo hi by (simp add: int_of_float64_def t_def Let_def)
  then show ?thesis
    using fl by simp
qed

section \<open>Points are the floor of weight times rate\<close>

text \<open>
  Claim C3, as the code has it.  For a material of the rate table and a positive weight,
  when the binary64 product \<^verbatim>\<open>weight * float64(rate)\<close> is finite and below \<open>2 ^ 63\<close>, the
  points are the floor of that product: the fraction is cut off, not rounded.  At 10
  points per kilogram, 1.5 kg (\<open>3 * 2 ^ -1\<close>) gives 15 points, 0.33 kg (the binary64
  value \<open>5944751508129055 * 2 ^ -54\<close>) gives 3, and 0.37 kg
  (\<open>6665327448508334 * 2 ^ -54\<close>), whose product 3.7 would round to 4, gives 3 as well.
\<close>

theorem CalculatePoints_floor:
  "(materialRates itemType = Some rate \<and> 0 < m
      \<and> f64_mul (Finite m e) (float64_of_int rate) = Finite pm pe
      \<and> valof (Finite pm pe) < 2 ^ 63
    \<longrightarrow> CalculatePoints itemType (Finite m e) = \<lfloor>valof (Finite pm pe)\<rfloor>)
   \<and> CalculatePoints ''plastic'' (Finite 3 (- 1)) = 15
   \<and> CalculatePoints ''plastic'' (Finite 5944751508129055 (- 54)) = 3
   \<and> CalculatePoints ''plastic'' (Finite 6665327448508334 (- 54)) = 3"
proof -
  have general: "CalculatePoints itemType (Finite m e) = \<lfloor>valof (Finite pm pe)\<rfloor>"
    if rate: "materialRates itemType = Some rate" and m: "0 < m"
      and prod: "f64_mul (Finite m e) (float64_of_int rate) = Finite pm pe"
      and range: "valof (Finite pm pe) < 2 ^ 63"
  proof -
    obtain r where r: "float64_of_int rate = Finite r 0" "0 < r"
      using materialRates_cases [OF rate] float64_of_rates by auto
    have "f64_round (m * r) e = Finite pm pe"
      using prod r by simp
    then have "0 \<le> pm"
      using f64_round_sign [of "m * r" e pm pe] m r(2) by simp
    then show ?thesis
      using rate prod range int_of_float64_floor by (simp add: CalculatePoints_def)
  qed
  have ex1: "CalculatePoints ''plastic'' (Finite 3 (- 1)) = 15"
    by (simp add: f64_eval)
  have ex2: "CalculatePoints ''plastic'' (Finite 5944751508129055 (- 54)) = 3"
    by (simp add: f64_eval)
  have ex3: "CalculatePoints ''plastic'' (Finite 6665327448508334 (- 54)) = 3"
    by (simp add: f64_eval)
  show ?thesis
    using general ex1 ex2 ex3 by blast
qed

theorem CalculatePoints_floor_witness:
  "materialRates ''plastic'' = Some 10 \<and> (0::int) < 5944751508129055
   \<and> f64_mul (Finite 5944751508129055 (- 54)) (float64_of_int 10)
       = Finite 7430939385161319 (- 51)
   \<and> valof (Finite 7430939385161319 (- 51)) < 2 ^ 63
   \<and> CalculatePoints ''plastic'' (Finite 5944751508129055 (- 54))
       = \<lfloor>valof (Finite 7430939385161319 (- 51))\<rfloor>"
proof -
  have a: "materialRates ''plastic'' = Some 10"
    by (simp add: materialRates_def)
  have b: "f64_mul (Finite 5944751508129055 (- 54)) (float64_of_int 10)
       = Finite 7430939385161319 (- 51)"
    by (simp add: f64_eval)
  have c: "valof (Finite 7430939385161319 (- 51)) < 2 ^ 63"
    by (simp add: valof_def)
  show ?thesis
    using a b c
      CalculatePoints_floor [of "''plastic''" 10 5944751508129055 "- 54" 7430939385161319 "- 51"]
    by simp
qed

text \<open>
  Claim C3 as stated, for every positive weight, fails where the product leaves the range
  of \<^verbatim>\<open>int\<close>: for \<open>2 ^ 70\<close> kg of plastic the product is \<open>10 * 2 ^ 70\<close>, and the points,
  a 64-bit integer, are not its floor.
\<close>

theorem CalculatePoints_floor_counterexample:
  "materialRates ''plastic'' = Some 10
   \<and> \<not> f64_le_zero (Finite 1 70)
   \<and> CalculatePoints ''plastic'' (Finite 1 70) < 2 ^ 63
   \<and> \<lfloor>valof (f64_mul (Finite 1 70) (float64_of_int 10))\<rfloor> = 10 * 2 ^ 70
   \<and> CalculatePoints ''plastic'' (Finite 1 70)
       \<noteq> \<lfloor>valof (f64_mul (Finite 1 70) (float64_of_int 10))\<rfloor>"
proof -
  have a: "CalculatePoints ''plastic'' (Finite 1 70) = - (2 ^ 63)"
    by (simp add: f64_eval)
  have b: "f64_mul (Finite 1 70) (float64_of_int 10) = Finite 10 70"
    by (simp add: f64_eval)
  have c: "\<lfloor>valof (Finite 10 70)\<rfloor> = 10 * 2 ^ 70"
    by (simp add: valof_def)
  show ?thesis
    unfolding a b c by (simp add: materialRates_def)
qed

section \<open>Reading and updating tables\<close>

lemma find_map_upd:
  assumes "\<And>x. P (g x) = P x"
  shows "find P (map (\<lambda>x. if Q x then g x else x) xs)
         = map_option (\<lambda>x. if Q x then g x else x) (find P xs)"
  using assms by (induction xs) auto

lemma find_Some_filter: "find P xs = Some x \<Longrightarrow> filter P xs \<noteq> []"
  by (induction xs) (auto split: if_splits)

lemma find_None_filter: "find P xs = None \<Longrightarrow> filter P xs = []"
  by (induction xs) (auto split: if_splits)

lemma find_Some_P: "find P xs = Some x \<Longrightarrow> P x"
  by (induction xs) (auto split: if_splits)

lemma map_id_None: "find P xs = None \<Longrightarrow> map (\<lambda>x. if P x then g x else x) xs = xs"
  by (induction xs) (auto split: if_splits)

lemma find_Some_mem: "find P xs = Some x \<Longrightarrow> x \<in> set xs"
  by (induction xs) (auto split: if_splits)

lemma find_None_iff_ids: "find (\<lambda>u. f u = k) xs = None \<longleftrightarrow> k \<notin> set (map f xs)"
  by (induction xs) auto


lemma ids_add_total_points [simp]: "map u_id (add_total_points uid p us) = map u_id us"
  by (induction us) (auto simp: add_total_points_def)



lemma ledger_sum_append:
  "ledger_sum (ts @ [t]) k = ledger_sum ts k + (if t_user_id t = k then t_points_earned t else 0)"
  by (simp add: ledger_sum_def)

lemma ledger_deltas_append:
  "ledger_deltas (ts @ [t]) k
   = ledger_deltas ts k @ (if t_user_id t = k then [t_points_earned t] else [])"
  by (simp add: ledger_deltas_def)

lemma ledger_sum_deltas: "ledger_sum ts k = sum_list (ledger_deltas ts k)"
  by (simp add: ledger_sum_def ledger_deltas_def)

lemma running_in_range_append:
  "running_in_range b (ds @ [d])
   \<longleftrightarrow> running_in_range b ds \<and> in_int64 (b + sum_list ds + d)"
  by (induction ds arbitrary: b) (auto simp: add.assoc)

lemma running_in_range_last: "running_in_range b ds \<Longrightarrow> in_int64 (b + sum_list ds)"
proof (induction ds arbitrary: b)
  case Nil
  then show ?case by simp
next
  case (Cons d ds)
  then have "in_int64 (b + d + sum_list ds)" by simp
  then show ?case by (simp add: add.assoc)
qed

section \<open>Arithmetic on the stored balance\<close>

lemma sint_word_of_int64: "in_int64 r \<Longrightarrow> sint (word_of_int r :: 64 word) = r"
  unfolding in_int64_def by (simp add: sint_sbintrunc' signed_take_bit_int_eq_self)

lemma in_int64_sint: "in_int64 (sint (a :: 64 word))"
  unfolding in_int64_def using sint_ge [of a] sint_lt [of a] by simp

lemma round_half_even_0 [simp]: "round_half_even 0 k = 0"
  by (simp add: round_half_even_def)

lemma sql_add_in_range:
  assumes "in_int64 (sint a + p)"
  shows "sql_add (SqlInt a) p = SqlInt (word_of_int (sint a + p))"
    and "scan_int (sql_add (SqlInt a) p) = sint a + p"
proof -
  show eq: "sql_add (SqlInt a) p = SqlInt (word_of_int (sint a + p))"
    unfolding sql_add_def by (simp only: assms if_True sql_num.case)
  show "scan_int (sql_add (SqlInt a) p) = sint a + p"
    unfolding eq scan_int_def by (simp only: sql_num.case sint_word_of_int64 [OF assms])
qed

lemma f64_round_neg: "f64_round (- m) e = f64_neg (f64_round m e)"
  by (cases "m = 0") (auto simp: f64_round_def Let_def sgn_if)

lemma sql_sub_add: "sql_sub x p = sql_add x (- p)"
  by (cases x) (simp_all add: sql_sub_def sql_add_def f64_sub_def float64_of_int_def f64_round_neg)

lemma sub_total_points_add: "sub_total_points uid p us = add_total_points uid (- p) us"
  by (simp add: sub_total_points_def add_total_points_def sql_sub_add)

lemmas db_eval = select_session_def select_user_def select_total_points_def
  add_total_points_def sub_total_points_def set_session_status_def next_id_def
  insert_or_ignore_user_def InitDB_def empty_db_def minute_def connectSession_def
  connectSession_select_def connectSession_update_def

section \<open>The scenario, evaluated\<close>

lemma InitDB_empty:
  "InitDB empty_db = \<lparr>users =
      [\<lparr>u_id = 1, u_email = ''dummy@trash2cash.com'', u_full_name = ''Dummy User'',
        u_total_points = SqlInt 1000\<rparr>,
       \<lparr>u_id = 2, u_email = ''demo@trash2cash.com'', u_full_name = ''Demo User'',
        u_total_points = SqlInt 2500\<rparr>],
     transactions = [], redemptions = [], station_sessions = []\<rparr>"
  by (simp add: db_eval)

lemma scenario_created_eq:
  "scenario_created = (InitDB empty_db)\<lparr>station_sessions :=
     [\<lparr>ss_id = 1, ss_session_token = ''token-1'', ss_station_id = ''default'',
       ss_user_id = None, ss_status = ''pending'', ss_auth_token = None,
       ss_expires_at = 300000000000, ss_ended_at = None\<rparr>]\<rparr>"
  by (simp add: scenario_created_def requestSession_def InitDB_empty db_eval)

lemma scenario_bound_eq:
  "scenario_bound = (InitDB empty_db)\<lparr>station_sessions :=
     [\<lparr>ss_id = 1, ss_session_token = ''token-1'', ss_station_id = ''default'',
       ss_user_id = Some 1, ss_status = ''connected'', ss_auth_token = Some ''jwt-1'',
       ss_expires_at = 300000000000, ss_ended_at = None\<rparr>]\<rparr>"
  by (simp add: scenario_bound_def scenario_created_eq InitDB_empty scenario_verifyJWT_def
      db_eval)

lemma metal_2kg: "CalculatePoints ''metal'' (Finite 2 0) = 30"
  by (simp add: f64_eval)

lemma scenario_deposited_eq:
  "scenario_deposited = \<lparr>users =
      [\<lparr>u_id = 1, u_email = ''dummy@trash2cash.com'', u_full_name = ''Dummy User'',
        u_total_points = SqlInt 1030\<rparr>,
       \<lparr>u_id = 2, u_email = ''demo@trash2cash.com'', u_full_name = ''Demo User'',
        u_total_points = SqlInt 2500\<rparr>],
     transactions =
      [\<lparr>t_id = 1, t_user_id = 1, t_type = ''deposit'', t_amount = Finite 0 0,
        t_item_type = ''metal'', t_weight = Finite 2 0, t_points_earned = 30,
        t_station_id = 1, t_session_token = Some ''token-1''\<rparr>],
     redemptions = [],
     station_sessions =
      [\<lparr>ss_id = 1, ss_session_token = ''token-1'', ss_station_id = ''default'',
        ss_user_id = Some 1, ss_status = ''active'', ss_auth_token = Some ''jwt-1'',
        ss_expires_at = 300000000000, ss_ended_at = None\<rparr>]\<rparr>"
  by (simp add: scenario_deposited_def scenario_bound_eq deposit_def InitDB_empty metal_2kg
      db_eval sql_eval)

lemma scenario_ended_eq:
  "scenario_ended = scenario_deposited\<lparr>station_sessions :=
      [\<lparr>ss_id = 1, ss_session_token = ''token-1'', ss_station_id = ''default'',
        ss_user_id = Some 1, ss_status = ''expired'', ss_auth_token = Some ''jwt-1'',
        ss_expires_at = 300000000000, ss_ended_at = Some 3\<rparr>]\<rparr>"
  by (simp add: scenario_ended_def scenario_deposited_eq endSession_def)


section \<open>Ending a session\<close>

lemma endSession_existing:
  assumes "select_session s tok = Some row" "tok \<noteq> []"
  shows "fst (endSession s now (Some tok)) = Success 200 ''Session ended'' NoData"
    and "select_session (snd (endSession s now (Some tok))) tok
         = Some (row\<lparr>ss_status := ''expired'', ss_ended_at := Some now\<rparr>)"
proof -
  have f: "find (\<lambda>x. ss_session_token x = tok) (station_sessions s) = Some row"
    using assms(1) by (simp add: select_session_def)
  have nz: "filter (\<lambda>x. ss_session_token x = tok) (station_sessions s) \<noteq> []"
    using f by (rule find_Some_filter)
  show "fst (endSession s now (Some tok)) = Success 200 ''Session ended'' NoData"
    using assms(2) nz by (simp add: endSession_def Let_def)
  have tk: "ss_session_token row = tok"
    using find_Some_P [OF f] .
  have "find (\<lambda>x. ss_session_token x = tok)
          (map (\<lambda>x. if ss_session_token x = tok
                    then x\<lparr>ss_status := ''expired'', ss_ended_at := Some now\<rparr> else x)
             (station_sessions s))
        = map_option (\<lambda>x. if ss_session_token x = tok
                    then x\<lparr>ss_status := ''expired'', ss_ended_at := Some now\<rparr> else x)
            (find (\<lambda>x. ss_session_token x = tok) (station_sessions s))"
    by (rule find_map_upd) simp
  then show "select_session (snd (endSession s now (Some tok))) tok
         = Some (row\<lparr>ss_status := ''expired'', ss_ended_at := Some now\<rparr>)"
    using assms(2) f tk by (simp add: endSession_def Let_def select_session_def)
qed

lemma endSession_unknown:
  assumes "select_session s tok = None" "tok \<noteq> []"
  shows "endSession s now (Some tok) = (Failure 404 ''Session not found'', s)"
proof -
  have f: "find (\<lambda>x. ss_session_token x = tok) (station_sessions s) = None"
    using assms(1) by (simp add: select_session_def)
  show ?thesis
    using assms(2) find_None_filter [OF f] map_id_None [OF f]
    by (simp add: endSession_def Let_def)
qed

text \<open>
  Claim C7, as the code has it.  \<^verbatim>\<open>endSession\<close> on a session that is pending, connected
  or active answers 200, sets the status of the session to \<^verbatim>\<open>expired\<close> (the handler never
  writes \<^verbatim>\<open>ended\<close>) and records the end time in \<^verbatim>\<open>ended_at\<close>.
\<close>

theorem endSession_sets_expired:
  "select_session s tok = Some row \<and> tok \<noteq> []
     \<and> ss_status row \<in> {''pending'', ''connected'', ''active''}
   \<longrightarrow> fst (endSession s now (Some tok)) = Success 200 ''Session ended'' NoData
     \<and> select_session (snd (endSession s now (Some tok))) tok
         = Some (row\<lparr>ss_status := ''expired'', ss_ended_at := Some now\<rparr>)"
  using endSession_existing by blast

theorem endSession_sets_expired_witness:
  "select_session scenario_bound ''token-1''
     = Some \<lparr>ss_id = 1, ss_session_token = ''token-1'', ss_station_id = ''default'',
         ss_user_id = Some 1, ss_status = ''connected'', ss_auth_token = Some ''jwt-1'',
         ss_expires_at = 300000000000, ss_ended_at = None\<rparr>
   \<and> fst (endSession scenario_bound 3 (Some ''token-1'')) = Success 200 ''Session ended'' NoData
   \<and> select_session (snd (endSession scenario_bound 3 (Some ''token-1''))) ''token-1''
     = Some \<lparr>ss_id = 1, ss_session_token = ''token-1'', ss_station_id = ''default'',
         ss_user_id = Some 1, ss_status = ''expired'', ss_auth_token = Some ''jwt-1'',
         ss_expires_at = 300000000000, ss_ended_at = Some 3\<rparr>"
proof -
  have a: "select_session scenario_bound ''token-1''
     = Some \<lparr>ss_id = 1, ss_session_token = ''token-1'', ss_station_id = ''default'',
         ss_user_id = Some 1, ss_status = ''connected'', ss_auth_token = Some ''jwt-1'',
         ss_expires_at = 300000000000, ss_ended_at = None\<rparr>"
    by (simp add: scenario_bound_eq select_session_def)
  show ?thesis
    using a endSession_sets_expired [of scenario_bound "''token-1''" "\<lparr>ss_id = 1, ss_session_token = ''token-1'', ss_station_id = ''default'',
         ss_user_id = Some 1, ss_status = ''connected'', ss_auth_token = Some ''jwt-1'',
         ss_expires_at = 300000000000, ss_ended_at = None\<rparr>" 3]
    by simp
qed

text \<open>
  Claim C7 as stated fails: ending the pending session of the scenario leaves it with the
  status \<^verbatim>\<open>expired\<close>, not \<^verbatim>\<open>ended\<close>.
\<close>

theorem endSession_status_counterexample:
  "map_option ss_status (select_session scenario_created ''token-1'') = Some ''pending''
   \<and> map_option ss_status
        (select_session (snd (endSession scenario_created 3 (Some ''token-1''))) ''token-1'')
      = Some ''expired''
   \<and> map_option ss_status
        (select_session (snd (endSession scenario_created 3 (Some ''token-1''))) ''token-1'')
      \<noteq> Some ''ended''"
  by (simp add: scenario_created_eq endSession_def InitDB_empty db_eval)

text \<open>
  Claim C8, as the code has it.  \<^verbatim>\<open>endSession\<close> on a session that is already ended or
  expired answers 200 again, keeps the status \<^verbatim>\<open>expired\<close> and overwrites \<^verbatim>\<open>ended_at\<close>
  with the current time; the answer is 404, and the database is unchanged, only when no
  session has the token.
\<close>

theorem endSession_terminal:
  "(select_session s tok = Some row \<and> tok \<noteq> []
      \<and> ss_status row \<in> {''ended'', ''expired''}
    \<longrightarrow> fst (endSession s now (Some tok)) = Success 200 ''Session ended'' NoData
      \<and> select_session (snd (endSession s now (Some tok))) tok
          = Some (row\<lparr>ss_status := ''expired'', ss_ended_at := Some now\<rparr>))
   \<and> (select_session s tok = None \<and> tok \<noteq> []
    \<longrightarrow> endSession s now (Some tok) = (Failure 404 ''Session not found'', s))"
  using endSession_existing endSession_unknown by blast

theorem endSession_terminal_witness:
  "select_session scenario_ended ''token-1''
     = Some \<lparr>ss_id = 1, ss_session_token = ''token-1'', ss_station_id = ''default'',
         ss_user_id = Some 1, ss_status = ''expired'', ss_auth_token = Some ''jwt-1'',
         ss_expires_at = 300000000000, ss_ended_at = Some 3\<rparr>
   \<and> fst (endSession scenario_ended 4 (Some ''token-1'')) = Success 200 ''Session ended'' NoData
   \<and> select_session (snd (endSession scenario_ended 4 (Some ''token-1''))) ''token-1''
     = Some \<lparr>ss_id = 1, ss_session_token = ''token-1'', ss_station_id = ''default'',
         ss_user_id = Some 1, ss_status = ''expired'', ss_auth_token = Some ''jwt-1'',
         ss_expires_at = 300000000000, ss_ended_at = Some 4\<rparr>
   \<and> select_session scenario_ended ''token-2'' = None
   \<and> endSession scenario_ended 4 (Some ''token-2'')
     = (Failure 404 ''Session not found'', scenario_ended)"
proof -
  have a: "select_session scenario_ended ''token-1''
     = Some \<lparr>ss_id = 1, ss_session_token = ''token-1'', ss_station_id = ''default'',
         ss_user_id = Some 1, ss_status = ''expired'', ss_auth_token = Some ''jwt-1'',
         ss_expires_at = 300000000000, ss_ended_at = Some 3\<rparr>"
    by (simp add: scenario_ended_eq select_session_def)
  have b: "select_session scenario_ended ''token-2'' = None"
    by (simp add: scenario_ended_eq select_session_def)
  show ?thesis
    using a b endSession_terminal [of scenario_ended "''token-1''" "\<lparr>ss_id = 1, ss_session_token = ''token-1'', ss_station_id = ''default'',
         ss_user_id = Some 1, ss_status = ''expired'', ss_auth_token = Some ''jwt-1'',
         ss_expires_at = 300000000000, ss_ended_at = Some 3\<rparr>" 4]
      endSession_terminal [of scenario_ended "''token-2''" "\<lparr>ss_id = 1, ss_session_token = ''token-1'', ss_station_id = ''default'',
         ss_user_id = Some 1, ss_status = ''expired'', ss_auth_token = Some ''jwt-1'',
         ss_expires_at = 300000000000, ss_ended_at = Some 3\<rparr>" 4]
    by simp
qed

text \<open>
  Claim C8 as stated fails: ending the ended session of the scenario once more, at time
  4, answers 200 and moves \<^verbatim>\<open>ended_at\<close> from 3 to 4.
\<close>

theorem endSession_terminal_counterexample:
  "map_option ss_status (select_session scenario_ended ''token-1'') = Some ''expired''
   \<and> map_option ss_ended_at (select_session scenario_ended ''token-1'') = Some (Some 3)
   \<and> fst (endSession scenario_ended 4 (Some ''token-1'')) = Success 200 ''Session ended'' NoData
   \<and> map_option ss_ended_at
        (select_session (snd (endSession scenario_ended 4 (Some ''token-1''))) ''token-1'')
      = Some (Some 4)
   \<and> snd (endSession scenario_ended 4 (Some ''token-1'')) \<noteq> scenario_ended"
  by (simp add: scenario_ended_eq scenario_deposited_eq endSession_def db_eval)

section \<open>Deposits in a session\<close>

text \<open>
  Claim C9.  When the session of the request has no user, or a user other than the
  caller, \<^verbatim>\<open>deposit\<close> fails and leaves the whole database as it is: no ledger entry, no
  balance change.  With a well-formed request (material and token not empty, weight
  positive) the failure is 403.
\<close>

theorem deposit_forbidden:
  "select_session s (sd_SessionToken req) = Some row \<and> ss_user_id row \<noteq> Some userID
   \<longrightarrow> snd (deposit s (Some userID) (Some req)) = s
     \<and> (\<exists>code err. fst (deposit s (Some userID) (Some req)) = Failure code err)
     \<and> (sd_Material req \<noteq> [] \<and> \<not> f64_le_zero (sd_Weight req) \<and> sd_SessionToken req \<noteq> []
        \<longrightarrow> deposit s (Some userID) (Some req)
            = (Failure 403 ''Session not linked to this user'', s))"
  by (auto simp: deposit_def split: option.splits)

theorem deposit_forbidden_witness:
  "select_session scenario_bound ''token-1''
     = Some \<lparr>ss_id = 1, ss_session_token = ''token-1'', ss_station_id = ''default'',
         ss_user_id = Some 1, ss_status = ''connected'', ss_auth_token = Some ''jwt-1'',
         ss_expires_at = 300000000000, ss_ended_at = None\<rparr>
   \<and> deposit scenario_bound (Some 2)
         (Some \<lparr>sd_Material = ''metal'', sd_Weight = Finite 2 0, sd_SessionToken = ''token-1''\<rparr>)
       = (Failure 403 ''Session not linked to this user'', scenario_bound)"
proof -
  have a: "select_session scenario_bound ''token-1''
     = Some \<lparr>ss_id = 1, ss_session_token = ''token-1'', ss_station_id = ''default'',
         ss_user_id = Some 1, ss_status = ''connected'', ss_auth_token = Some ''jwt-1'',
         ss_expires_at = 300000000000, ss_ended_at = None\<rparr>"
    by (simp add: scenario_bound_eq select_session_def)
  show ?thesis
    using a deposit_forbidden
      [of scenario_bound
          "\<lparr>sd_Material = ''metal'', sd_Weight = Finite 2 0, sd_SessionToken = ''token-1''\<rparr>"
          "\<lparr>ss_id = 1, ss_session_token = ''token-1'', ss_station_id = ''default'',
         ss_user_id = Some 1, ss_status = ''connected'', ss_auth_token = Some ''jwt-1'',
         ss_expires_at = 300000000000, ss_ended_at = None\<rparr>" 2]
    by simp
qed

text \<open>
  Claim C2 at its failing input.  \<^verbatim>\<open>deposit\<close> reads the status of the session and never
  tests it: on the ended session of the scenario (status \<^verbatim>\<open>expired\<close>), a further deposit
  of 2 kg of metal by the bound user answers 200, awards 30 points and sets the status
  to \<^verbatim>\<open>active\<close>.
\<close>

theorem deposit_after_end_reactivates:
  "map_option ss_status (select_session scenario_ended ''token-1'') = Some ''expired''
   \<and> fst (deposit scenario_ended (Some 1)
        (Some \<lparr>sd_Material = ''metal'', sd_Weight = Finite 2 0, sd_SessionToken = ''token-1''\<rparr>))
      = Success 200 ''Deposit recorded successfully'' (DepositRecorded 1060 30 2)
   \<and> map_option ss_status (select_session (snd (deposit scenario_ended (Some 1)
        (Some \<lparr>sd_Material = ''metal'', sd_Weight = Finite 2 0, sd_SessionToken = ''token-1''\<rparr>)))
        ''token-1'') = Some ''active''"
  by (simp add: scenario_ended_eq scenario_deposited_eq deposit_def metal_2kg db_eval sql_eval)

text \<open>
  Claim C4 at its failing input.  The manual entry handlers do not test the weight: for
  -1.5 kg of plastic (\<open>-3 * 2 ^ -1\<close>) \<^verbatim>\<open>createTransaction\<close> and \<^verbatim>\<open>processDeposit\<close> compute
  -15 points, which is not 0, write the ledger entry and lower the balance of the seeded
  user 1 from 1000 to 985.
\<close>

theorem createTransaction_negative_weight:
  "f64_le_zero (Finite (- 3) (- 1))
   \<and> createTransaction (InitDB empty_db) (Some 1)
       (Some \<lparr>d_ItemType = ''plastic'', d_Weight = Finite (- 3) (- 1)\<rparr>)
     = (Success 201 ''Transaction successful'' (TransactionCreated 1 (- 15) 985),
        (InitDB empty_db)\<lparr>
          transactions :=
            [\<lparr>t_id = 1, t_user_id = 1, t_type = ''deposit'', t_amount = Finite 0 0,
              t_item_type = ''plastic'', t_weight = Finite (- 3) (- 1),
              t_points_earned = - 15, t_station_id = 1, t_session_token = None\<rparr>],
          users :=
            [\<lparr>u_id = 1, u_email = ''dummy@trash2cash.com'', u_full_name = ''Dummy User'',
              u_total_points = SqlInt 985\<rparr>,
             \<lparr>u_id = 2, u_email = ''demo@trash2cash.com'', u_full_name = ''Demo User'',
              u_total_points = SqlInt 2500\<rparr>]\<rparr>)
   \<and> fst (processDeposit (InitDB empty_db) (Some 1)
       (Some \<lparr>d_ItemType = ''plastic'', d_Weight = Finite (- 3) (- 1)\<rparr>))
     = Success 201 ''Deposit processed successfully''
         (DepositProcessed 1 ''plastic'' (Finite (- 3) (- 1)) (- 15) 985)"
proof -
  have p: "CalculatePoints ''plastic'' (Finite (- 3) (- 1)) = - 15"
    by (simp add: f64_eval)
  show ?thesis
    by (simp add: createTransaction_def processDeposit_def p InitDB_empty db_eval sql_eval)
qed

section \<open>Redeeming points\<close>







section \<open>The ledger and the balance\<close>

lemma le_fold_max: "(a::int) \<le> fold max xs a"
  by (induction xs arbitrary: a) (auto intro: order_trans [OF max.cobounded2])

lemma mem_le_fold_max: "x \<in> set xs \<Longrightarrow> (x::int) \<le> fold max xs a"
proof (induction xs arbitrary: a)
  case Nil
  then show ?case by simp
next
  case (Cons y ys)
  show ?case
  proof (cases "x = y")
    case True
    have "y \<le> max y a" by simp
    also have "\<dots> \<le> fold max ys (max y a)" by (rule le_fold_max)
    finally show ?thesis using True by simp
  next
    case False
    then show ?thesis using Cons by simp
  qed
qed

lemma next_id_fresh: "next_id ids \<notin> set ids"
proof
  assume "next_id ids \<in> set ids"
  then have "next_id ids \<le> fold max ids 0"
    by (rule mem_le_fold_max)
  then show False
    by (simp add: next_id_def)
qed

lemma ledger_sum_foreign:
  "list_all (\<lambda>t. t_user_id t \<in> A) ts \<Longrightarrow> k \<notin> A \<Longrightarrow> ledger_sum ts k = 0"
  by (induction ts) (auto simp: ledger_sum_def)

lemma ledger_inv_frame:
  "ledger_inv s \<Longrightarrow> users s' = users s \<Longrightarrow> transactions s' = transactions s \<Longrightarrow> ledger_inv s'"
  by (simp add: ledger_inv_def balance_in_range_def)

text \<open>One row through one entry: while the balance stays in range, the new balance is
  the integer sum.\<close>

lemma row_after_entry:
  assumes x: "x = SqlInt (word_of_int (b + S))"
    and r1: "in_int64 (b + S)" and r2: "in_int64 (b + S + p)"
  shows "sql_add x p = SqlInt (word_of_int (b + (S + p)))"
proof -
  have "in_int64 (sint (word_of_int (b + S) :: 64 word) + p)"
    using r2 by (simp only: sint_word_of_int64 [OF r1])
  then have "sql_add x p = SqlInt (word_of_int (sint (word_of_int (b + S) :: 64 word) + p))"
    unfolding x by (rule sql_add_in_range(1))
  then show ?thesis
    by (simp only: sint_word_of_int64 [OF r1] add.assoc)
qed

lemma ledger_inv_entry:
  assumes inv: "ledger_inv s" and uid: "uid \<in> set (map u_id (users s))"
    and us: "users s' = add_total_points uid (t_points_earned t) (users s)"
    and ts: "transactions s' = transactions s @ [t]" and t: "t_user_id t = uid"
  shows "ledger_inv s'"
proof -
  let ?p = "t_points_earned t"
  have row: "balance_in_range s' (u_id u')
      \<longrightarrow> u_total_points u' = SqlInt (word_of_int
            (opening_points (u_id u') + ledger_sum (transactions s') (u_id u')))"
    if u': "u' \<in> set (users s')" for u'
  proof -
    obtain u where u: "u \<in> set (users s)"
      and u'_eq: "u' = (if u_id u = uid
                       then u\<lparr>u_total_points := sql_add (u_total_points u) ?p\<rparr> else u)"
      using u' unfolding us add_total_points_def by auto
    have old: "balance_in_range s (u_id u)
        \<longrightarrow> u_total_points u = SqlInt (word_of_int
              (opening_points (u_id u) + ledger_sum (transactions s) (u_id u)))"
      using inv u by (simp add: ledger_inv_def list_all_iff)
    show ?thesis
    proof (cases "u_id u = uid")
      case True
      show ?thesis
      proof
        assume "balance_in_range s' (u_id u')"
        then have new: "balance_in_range s uid"
          "in_int64 (opening_points uid + ledger_sum (transactions s) uid + ?p)"
          using True u'_eq
          by (simp_all add: balance_in_range_def ts ledger_deltas_append t
              running_in_range_append ledger_sum_deltas)
        have r1: "in_int64 (opening_points uid + ledger_sum (transactions s) uid)"
          using new(1) running_in_range_last
          by (simp add: balance_in_range_def ledger_sum_deltas)
        have "sql_add (u_total_points u) ?p = SqlInt (word_of_int
            (opening_points uid + (ledger_sum (transactions s) uid + ?p)))"
          using old True new(1) by (intro row_after_entry [OF _ r1 new(2)]) simp
        then show "u_total_points u' = SqlInt (word_of_int
            (opening_points (u_id u') + ledger_sum (transactions s') (u_id u')))"
          using True u'_eq by (simp add: ts ledger_sum_append t)
      qed
    next
      case False
      then show ?thesis
        using old u'_eq
        by (simp add: balance_in_range_def ts ledger_sum_append ledger_deltas_append t)
    qed
  qed
  have a: "list_all (\<lambda>u. balance_in_range s' (u_id u)
            \<longrightarrow> u_total_points u = SqlInt (word_of_int
                  (opening_points (u_id u) + ledger_sum (transactions s') (u_id u))))
          (users s')"
    using row by (simp add: list_all_iff)
  have b: "list_all (\<lambda>t. t_user_id t \<in> set (map u_id (users s'))) (transactions s')"
    using inv uid unfolding ledger_inv_def us ts
    by (auto simp: list_all_iff t)
  have c: "1 \<in> set (map u_id (users s')) \<and> 2 \<in> set (map u_id (users s'))"
    using inv unfolding ledger_inv_def us by simp
  show ?thesis
    unfolding ledger_inv_def using a b c by blast
qed

lemma deposit_writes: "writes_entry s uid (snd (deposit s (Some uid) body))"
  by (auto simp: writes_entry_def deposit_def Let_def split: option.splits)

lemma createTransaction_writes: "writes_entry s uid (snd (createTransaction s (Some uid) body))"
  by (auto simp: writes_entry_def createTransaction_def Let_def split: option.splits)

lemma processDeposit_writes: "writes_entry s uid (snd (processDeposit s (Some uid) body))"
  by (auto simp: writes_entry_def processDeposit_def Let_def split: option.splits)

lemma redeemPoints_writes: "writes_entry s uid (snd (redeemPoints s (Some uid) body))"
  by (auto simp: writes_entry_def redeemPoints_def Let_def sub_total_points_add
      split: option.splits)

lemma no_header:
  "snd (deposit s None sbody) = s" "snd (createTransaction s None dbody) = s"
  "snd (processDeposit s None dbody) = s" "snd (redeemPoints s None rbody) = s"
  by (simp_all add: deposit_def createTransaction_def processDeposit_def redeemPoints_def)

lemma updateUserProfile_frame: "snd (updateUserProfile s hdr name) = s"
  by (simp add: updateUserProfile_def split: option.splits)

lemma session_handlers_frame:
  "users (snd (requestSession s now tok station)) = users s"
  "transactions (snd (requestSession s now tok station)) = transactions s"
  "users (snd (checkSession s now tokb)) = users s"
  "transactions (snd (checkSession s now tokb)) = transactions s"
  "users (snd (connectSession_update s d)) = users s"
  "transactions (snd (connectSession_update s d)) = transactions s"
  "users (snd (connectSession s now verifyJWT cbody)) = users s"
  "transactions (snd (connectSession s now verifyJWT cbody)) = transactions s"
  "users (snd (endSession s now tokb)) = users s"
  "transactions (snd (endSession s now tokb)) = transactions s"
  by (auto simp: requestSession_def checkSession_def connectSession_def connectSession_update_def
      endSession_def Let_def split: option.splits sum.splits prod.splits)

lemma ledger_inv_writes:
  "ledger_inv s \<Longrightarrow> uid \<in> set (map u_id (users s)) \<Longrightarrow> writes_entry s uid s' \<Longrightarrow> ledger_inv s'"
  unfolding writes_entry_def using ledger_inv_entry by blast

lemma ledger_inv_InitDB_empty: "ledger_inv (InitDB empty_db)"
  by (simp add: InitDB_empty ledger_inv_def opening_points_def ledger_sum_def)

lemma InitDB_seeded:
  "1 \<in> set (map u_id (users s)) \<Longrightarrow> 2 \<in> set (map u_id (users s)) \<Longrightarrow> InitDB s = s"
  by (simp add: InitDB_def insert_or_ignore_user_def)

lemma ledger_inv_add_user:
  assumes "ledger_inv s"
  shows "ledger_inv (s\<lparr>users := users s @
     [\<lparr>u_id = next_id (map u_id (users s)), u_email = em, u_full_name = fn,
       u_total_points = SqlInt 0\<rparr>]\<rparr>)"
proof -
  define n where "n = next_id (map u_id (users s))"
  have fresh: "n \<notin> set (map u_id (users s))"
    unfolding n_def by (rule next_id_fresh)
  have "ledger_sum (transactions s) n = 0"
    using assms fresh ledger_sum_foreign [of "set (map u_id (users s))" "transactions s" n]
    by (simp add: ledger_inv_def)
  moreover have "opening_points n = 0"
    using assms fresh by (auto simp: ledger_inv_def opening_points_def)
  ultimately show ?thesis
    using assms unfolding n_def [symmetric]
    by (auto simp: ledger_inv_def list_all_iff balance_in_range_def)
qed

lemma ledger_inv_register:
  "ledger_inv s \<Longrightarrow> ledger_inv (snd (register s body))"
  by (auto simp: register_def Let_def ledger_inv_add_user split: option.splits)

lemma ledger_inv_writer:
  assumes "ledger_inv s" "authenticated s hdr"
    and "\<And>uid. writes_entry s uid (snd (h s (Some uid) body))"
    and "snd (h s None body) = s"
  shows "ledger_inv (snd (h s hdr body))"
proof (cases hdr)
  case None
  then show ?thesis using assms(1,4) by simp
next
  case (Some uid)
  then have "uid \<in> set (map u_id (users s))"
    using assms(2) by (simp add: authenticated_def)
  then show ?thesis
    unfolding Some using assms(1,3) ledger_inv_writes by blast
qed

lemma step_ledger_inv: "step s s' \<Longrightarrow> ledger_inv s \<Longrightarrow> ledger_inv s'"
proof (induction rule: step.induct)
  case (restart s)
  then show ?case by (simp add: InitDB_seeded ledger_inv_def)
next
  case (do_register s body)
  then show ?case by (simp add: ledger_inv_register)
next
  case (do_updateUserProfile s hdr name)
  then show ?case by (simp add: updateUserProfile_frame)
next
  case (do_requestSession s now tok station)
  then show ?case
    by (rule ledger_inv_frame) (simp_all add: session_handlers_frame)
next
  case (do_checkSession s now tokb)
  then show ?case
    by (rule ledger_inv_frame) (simp_all add: session_handlers_frame)
next
  case (do_connectSession s now verifyJWT cbody)
  then show ?case
    by (rule ledger_inv_frame) (simp_all add: session_handlers_frame)
next
  case (do_connectSession_update s d)
  then show ?case
    by (rule ledger_inv_frame) (simp_all add: session_handlers_frame)
next
  case (do_endSession s now tokb)
  then show ?case
    by (rule ledger_inv_frame) (simp_all add: session_handlers_frame)
next
  case (do_deposit s hdr sbody)
  then show ?case
    by (intro ledger_inv_writer deposit_writes) (simp_all add: no_header)
next
  case (do_createTransaction s hdr dbody)
  then show ?case
    by (intro ledger_inv_writer createTransaction_writes) (simp_all add: no_header)
next
  case (do_processDeposit s hdr dbody)
  then show ?case
    by (intro ledger_inv_writer processDeposit_writes) (simp_all add: no_header)
next
  case (do_redeemPoints s hdr rbody)
  then show ?case
    by (intro ledger_inv_writer redeemPoints_writes) (simp_all add: no_header)
qed

lemma reachable_ledger_inv: "reachable s \<Longrightarrow> ledger_inv s"
  by (induction rule: reachable.induct) (auto intro: ledger_inv_InitDB_empty step_ledger_inv)

lemma ledger_inv_balance:
  assumes inv: "ledger_inv s" and bound: "balance_in_range s userID"
  shows "select_total_points s userID
         = opening_points userID + ledger_sum (transactions s) userID"
proof (cases "find (\<lambda>u. u_id u = userID) (users s)")
  case None
  then have out: "userID \<notin> set (map u_id (users s))"
    using find_None_iff_ids [of u_id userID "users s"] by blast
  have "ledger_sum (transactions s) userID = 0"
    using inv out ledger_sum_foreign [of "set (map u_id (users s))" "transactions s" userID]
    by (simp add: ledger_inv_def)
  moreover have "opening_points userID = 0"
    using inv out by (auto simp: ledger_inv_def opening_points_def)
  ultimately show ?thesis
    using None by (simp add: select_total_points_def select_user_def)
next
  case (Some u)
  have u: "u \<in> set (users s)" "u_id u = userID"
    using find_Some_mem [OF Some] find_Some_P [OF Some] by simp_all
  then have tot: "u_total_points u = SqlInt (word_of_int
      (opening_points userID + ledger_sum (transactions s) userID))"
    using inv bound by (auto simp: ledger_inv_def list_all_iff)
  have r: "in_int64 (opening_points userID + ledger_sum (transactions s) userID)"
    using bound running_in_range_last by (simp add: balance_in_range_def ledger_sum_deltas)
  have "scan_int (u_total_points u)
      = opening_points userID + ledger_sum (transactions s) userID"
    unfolding tot scan_int_def by (simp only: sql_num.case sint_word_of_int64 [OF r])
  then show ?thesis
    using Some by (simp add: select_total_points_def select_user_def)
qed

text \<open>A step appends to the ledger or leaves it as it is.\<close>

lemma writes_entry_grows:
  "writes_entry s uid s'
   \<Longrightarrow> transactions s' = transactions s \<or> (\<exists>t. transactions s' = transactions s @ [t])"
  by (auto simp: writes_entry_def)

lemma writer_grows:
  assumes "\<And>uid. writes_entry s uid (snd (h s (Some uid) body))"
    and "snd (h s None body) = s"
  shows "transactions (snd (h s hdr body)) = transactions s
    \<or> (\<exists>t. transactions (snd (h s hdr body)) = transactions s @ [t])"
proof (cases hdr)
  case None
  then show ?thesis using assms(2) by simp
next
  case (Some uid)
  show ?thesis
    unfolding Some using assms(1) by (rule writes_entry_grows)
qed

lemma step_ledger_grows:
  "step s s' \<Longrightarrow> transactions s' = transactions s \<or> (\<exists>t. transactions s' = transactions s @ [t])"
proof (induction rule: step.induct)
  case (do_deposit s hdr sbody)
  show ?case
    by (intro writer_grows deposit_writes) (simp add: no_header)
next
  case (do_createTransaction s hdr dbody)
  show ?case
    by (intro writer_grows createTransaction_writes) (simp add: no_header)
next
  case (do_processDeposit s hdr dbody)
  show ?case
    by (intro writer_grows processDeposit_writes) (simp add: no_header)
next
  case (do_redeemPoints s hdr rbody)
  show ?case
    by (intro writer_grows redeemPoints_writes) (simp add: no_header)
next
  case (restart s)
  show ?case by (simp add: InitDB_def)
next
  case (do_register s body)
  show ?case by (auto simp: register_def Let_def split: option.splits)
qed (simp_all add: session_handlers_frame updateUserProfile_frame)

lemma step_balance_in_range:
  assumes "step s s'" and "balance_in_range s' k"
  shows "balance_in_range s k"
  using step_ledger_grows [OF assms(1)] assms(2)
  by (auto simp: balance_in_range_def ledger_deltas_append running_in_range_append
      split: if_splits)


lemma reachable_scenario:
  "reachable scenario_created" "reachable scenario_bound" "reachable scenario_deposited"
proof -
  show c: "reachable scenario_created"
    unfolding scenario_created_def
    by (intro reachable.next_state [OF reachable.start] step.do_requestSession)
  show b: "reachable scenario_bound"
    unfolding scenario_bound_def
    by (intro reachable.next_state [OF c] step.do_connectSession)
  have "authenticated scenario_bound (Some 1)"
    by (simp add: authenticated_def scenario_bound_eq InitDB_empty)
  then show "reachable scenario_deposited"
    unfolding scenario_deposited_def
    by (intro reachable.next_state [OF b] step.do_deposit)
qed

lemma plastic_9e17: "CalculatePoints ''plastic'' (Finite 6866455078125 17) = 9000000000000000000"
  by (simp add: f64_eval)

lemma overflow_once_eq:
  "overflow_once = (InitDB empty_db)\<lparr>
     transactions :=
       [\<lparr>t_id = 1, t_user_id = 1, t_type = ''deposit'', t_amount = Finite 0 0,
         t_item_type = ''plastic'', t_weight = Finite 6866455078125 17,
         t_points_earned = 9000000000000000000, t_station_id = 1, t_session_token = None\<rparr>],
     users :=
       [\<lparr>u_id = 1, u_email = ''dummy@trash2cash.com'', u_full_name = ''Dummy User'',
         u_total_points = SqlInt 9000000000000001000\<rparr>,
        \<lparr>u_id = 2, u_email = ''demo@trash2cash.com'', u_full_name = ''Demo User'',
         u_total_points = SqlInt 2500\<rparr>]\<rparr>"
  by (simp add: overflow_once_def createTransaction_def plastic_9e17 InitDB_empty db_eval
      sql_eval)

lemma overflow_sum:
  "f64_add (float64_of_int 9000000000000001000) (float64_of_int 9000000000000000000)
   = Finite 8789062500000000 11"
  by (simp add: f64_eval)

lemma overflow_twice_eq:
  "overflow_twice = (InitDB empty_db)\<lparr>
     transactions :=
       [\<lparr>t_id = 1, t_user_id = 1, t_type = ''deposit'', t_amount = Finite 0 0,
         t_item_type = ''plastic'', t_weight = Finite 6866455078125 17,
         t_points_earned = 9000000000000000000, t_station_id = 1, t_session_token = None\<rparr>,
        \<lparr>t_id = 2, t_user_id = 1, t_type = ''deposit'', t_amount = Finite 0 0,
         t_item_type = ''plastic'', t_weight = Finite 6866455078125 17,
         t_points_earned = 9000000000000000000, t_station_id = 1, t_session_token = None\<rparr>],
     users :=
       [\<lparr>u_id = 1, u_email = ''dummy@trash2cash.com'', u_full_name = ''Dummy User'',
         u_total_points = SqlReal (Finite 8789062500000000 11)\<rparr>,
        \<lparr>u_id = 2, u_email = ''demo@trash2cash.com'', u_full_name = ''Demo User'',
         u_total_points = SqlInt 2500\<rparr>]\<rparr>"
proof -
  have "sql_add (SqlInt 9000000000000001000) 9000000000000000000
      = SqlReal (Finite 8789062500000000 11)"
    by (simp add: sql_add_def in_int64_def overflow_sum store_real_def f64_integer_def)
  then show ?thesis
    by (simp add: overflow_twice_def overflow_once_eq createTransaction_def plastic_9e17
        InitDB_empty db_eval)
qed

lemma reachable_overflow: "reachable overflow_once" "reachable overflow_twice"
proof -
  have "authenticated (InitDB empty_db) (Some 1)"
    by (simp add: authenticated_def InitDB_empty)
  then show a: "reachable overflow_once"
    unfolding overflow_once_def
    by (intro reachable.next_state [OF reachable.start] step.do_createTransaction)
  have "authenticated overflow_once (Some 1)"
    by (simp add: authenticated_def overflow_once_eq InitDB_empty)
  then show "reachable overflow_twice"
    unfolding overflow_twice_def
    by (intro reachable.next_state [OF a] step.do_createTransaction)
qed

text \<open>
  Claim C1, as the code has it.  In every reachable state, for every owner none of
  whose balances has left the 64-bit range (the opening balance and each sum of it with
  the first so many of the owner's deltas), the balance read from \<^verbatim>\<open>users.total_points\<close>
  is the opening balance (1000 and 2500 for the two users \<^verbatim>\<open>InitDB\<close> seeds, 0 for every
  other owner) plus the sum of \<^verbatim>\<open>points_earned\<close> over the owner's rows of \<^verbatim>\<open>transactions\<close>.
  And every step of the server, from a reachable state to a state in that range, changes
  the balance by exactly the change of that sum.
\<close>

theorem balance_is_opening_plus_ledger:
  "(reachable s \<and> balance_in_range s userID
    \<longrightarrow> select_total_points s userID
        = opening_points userID + ledger_sum (transactions s) userID)
   \<and> (reachable s \<and> step s s' \<and> balance_in_range s' userID
    \<longrightarrow> select_total_points s' userID - select_total_points s userID
        = ledger_sum (transactions s') userID - ledger_sum (transactions s) userID)"
proof -
  have inv: "select_total_points t userID
        = opening_points userID + ledger_sum (transactions t) userID"
    if "reachable t" "balance_in_range t userID" for t
    using that reachable_ledger_inv ledger_inv_balance by blast
  have "select_total_points s' userID - select_total_points s userID
        = ledger_sum (transactions s') userID - ledger_sum (transactions s) userID"
    if r: "reachable s" and st: "step s s'" and b: "balance_in_range s' userID"
  proof -
    have "balance_in_range s userID"
      using st b by (rule step_balance_in_range)
    then have "select_total_points s userID
        = opening_points userID + ledger_sum (transactions s) userID"
      using r by (rule inv [rotated])
    moreover have "select_total_points s' userID
        = opening_points userID + ledger_sum (transactions s') userID"
      using reachable.next_state [OF r st] b by (rule inv)
    ultimately show ?thesis by simp
  qed
  then show ?thesis
    using inv by blast
qed

theorem balance_is_opening_plus_ledger_witness:
  "reachable scenario_bound \<and> step scenario_bound scenario_deposited
   \<and> reachable scenario_deposited
   \<and> balance_in_range scenario_deposited 1
   \<and> select_total_points scenario_bound 1 = 1000
   \<and> select_total_points scenario_deposited 1 = 1030
   \<and> opening_points 1 = 1000
   \<and> ledger_sum (transactions scenario_bound) 1 = 0
   \<and> ledger_sum (transactions scenario_deposited) 1 = 30
   \<and> select_total_points scenario_deposited 1
       = opening_points 1 + ledger_sum (transactions scenario_deposited) 1
   \<and> select_total_points scenario_deposited 1 - select_total_points scenario_bound 1
       = ledger_sum (transactions scenario_deposited) 1
         - ledger_sum (transactions scenario_bound) 1"
proof -
  have r: "reachable scenario_bound" and r': "reachable scenario_deposited"
    by (rule reachable_scenario)+
  have "authenticated scenario_bound (Some 1)"
    by (simp add: authenticated_def scenario_bound_eq InitDB_empty)
  then have st: "step scenario_bound scenario_deposited"
    unfolding scenario_deposited_def by (rule step.do_deposit)
  have b: "balance_in_range scenario_deposited 1"
    by (simp add: scenario_deposited_eq balance_in_range_def opening_points_def
        ledger_deltas_def in_int64_def)
  have e: "select_total_points scenario_bound 1 = 1000"
    "select_total_points scenario_deposited 1 = 1030" "opening_points 1 = 1000"
    "ledger_sum (transactions scenario_bound) 1 = 0"
    "ledger_sum (transactions scenario_deposited) 1 = 30"
    by (simp_all add: scenario_deposited_eq scenario_bound_eq InitDB_empty
        select_total_points_def select_user_def scan_int_def opening_points_def ledger_sum_def)
  have inv: "select_total_points scenario_deposited 1
       = opening_points 1 + ledger_sum (transactions scenario_deposited) 1"
    using r' b balance_is_opening_plus_ledger [of scenario_deposited 1] by blast
  have stp: "select_total_points scenario_deposited 1 - select_total_points scenario_bound 1
       = ledger_sum (transactions scenario_deposited) 1
         - ledger_sum (transactions scenario_bound) 1"
    using r st b balance_is_opening_plus_ledger [of scenario_bound 1 scenario_deposited]
    by blast
  show ?thesis
    using r r' st b e inv stp by blast
qed

text \<open>
  Claim C1 as stated fails in two ways.  In the first reachable state, after \<^verbatim>\<open>InitDB\<close> on
  a fresh database, the seeded user 1 has 1000 points and the ledger is empty.  And after
  two manual entries of \<open>9 * 10 ^ 17\<close> kg of plastic by user 1 (9000000000000000000
  points each) the second sum leaves the 64-bit range: SQLite stores the \<^verbatim>\<open>REAL\<close>
  \<open>1.8 * 10 ^ 19\<close>, the handlers read it as 0, and the opening balance plus the ledger
  sum is 18000000000000001000.
\<close>

theorem balance_is_ledger_sum_counterexample:
  "reachable (InitDB empty_db)
   \<and> transactions (InitDB empty_db) = []
   \<and> select_total_points (InitDB empty_db) 1 = 1000
   \<and> ledger_sum (transactions (InitDB empty_db)) 1 = 0
   \<and> select_total_points (InitDB empty_db) 1 \<noteq> ledger_sum (transactions (InitDB empty_db)) 1
   \<and> reachable overflow_twice
   \<and> map u_total_points (users overflow_twice)
       = [SqlReal (Finite 8789062500000000 11), SqlInt 2500]
   \<and> select_total_points overflow_twice 1 = 0
   \<and> ledger_sum (transactions overflow_twice) 1 = 18000000000000000000
   \<and> select_total_points overflow_twice 1
       \<noteq> opening_points 1 + ledger_sum (transactions overflow_twice) 1
   \<and> \<not> balance_in_range overflow_twice 1"
  using reachable.start reachable_overflow(2)
  by (simp add: InitDB_empty overflow_twice_eq select_total_points_def select_user_def
      scan_int_def ledger_sum_def opening_points_def balance_in_range_def ledger_deltas_def
      in_int64_def)

section \<open>No entry without points\<close>

lemma writes_entry_nonzero:
  "writes_entry s uid s' \<Longrightarrow> list_all (\<lambda>t. t_points_earned t \<noteq> 0) (transactions s)
   \<Longrightarrow> list_all (\<lambda>t. t_points_earned t \<noteq> 0) (transactions s')"
  by (auto simp: writes_entry_def)

lemma profile_handlers_frame:
  "transactions (snd (register s body)) = transactions s"
  "transactions (InitDB s) = transactions s"
  by (auto simp: register_def InitDB_def Let_def split: option.splits)

lemma nonzero_writer:
  assumes "list_all (\<lambda>t. t_points_earned t \<noteq> 0) (transactions s)"
    and "\<And>uid. writes_entry s uid (snd (h s (Some uid) body))"
    and "snd (h s None body) = s"
  shows "list_all (\<lambda>t. t_points_earned t \<noteq> 0) (transactions (snd (h s hdr body)))"
proof (cases hdr)
  case None
  then show ?thesis using assms(1,3) by simp
next
  case (Some uid)
  show ?thesis
    unfolding Some using assms(1,2) writes_entry_nonzero by blast
qed

lemma step_entries_nonzero:
  "step s s' \<Longrightarrow> list_all (\<lambda>t. t_points_earned t \<noteq> 0) (transactions s)
   \<Longrightarrow> list_all (\<lambda>t. t_points_earned t \<noteq> 0) (transactions s')"
proof (induction rule: step.induct)
  case (do_deposit s hdr sbody)
  then show ?case
    by (intro nonzero_writer deposit_writes) (simp_all add: no_header)
next
  case (do_createTransaction s hdr dbody)
  then show ?case
    by (intro nonzero_writer createTransaction_writes) (simp_all add: no_header)
next
  case (do_processDeposit s hdr dbody)
  then show ?case
    by (intro nonzero_writer processDeposit_writes) (simp_all add: no_header)
next
  case (do_redeemPoints s hdr rbody)
  then show ?case
    by (intro nonzero_writer redeemPoints_writes) (simp_all add: no_header)
qed (simp_all add: session_handlers_frame profile_handlers_frame updateUserProfile_frame)

lemma reachable_entries_nonzero:
  "reachable s \<Longrightarrow> list_all (\<lambda>t. t_points_earned t \<noteq> 0) (transactions s)"
  by (induction rule: reachable.induct) (auto simp: InitDB_empty intro: step_entries_nonzero)

text \<open>
  Claim C10.  When the points computed for a request are 0, \<^verbatim>\<open>createTransaction\<close> and
  \<^verbatim>\<open>processDeposit\<close> answer 400 \<^verbatim>\<open>Invalid item type\<close>, and \<^verbatim>\<open>deposit\<close> (on a well-formed
  request for a session of the caller) answers 400 \<^verbatim>\<open>Invalid material type\<close>, with the
  database unchanged; a material that is not in the rate table takes the same branch,
  since its points are 0.  Plastic at 0.05 kg (\<open>7205759403792794 * 2 ^ -57\<close>) is in the
  table, has a positive weight and gives 0 points.  So in every reachable state no
  deposit entry has \<^verbatim>\<open>points_earned = 0\<close>.
\<close>

theorem zero_points_rejected:
  "(CalculatePoints (d_ItemType req) (d_Weight req) = 0
    \<longrightarrow> createTransaction s (Some userID) (Some req) = (Failure 400 ''Invalid item type'', s)
      \<and> processDeposit s (Some userID) (Some req) = (Failure 400 ''Invalid item type'', s))
   \<and> (select_session s (sd_SessionToken sreq) = Some row \<and> ss_user_id row = Some userID
      \<and> sd_Material sreq \<noteq> [] \<and> \<not> f64_le_zero (sd_Weight sreq) \<and> sd_SessionToken sreq \<noteq> []
      \<and> CalculatePoints (sd_Material sreq) (sd_Weight sreq) = 0
    \<longrightarrow> deposit s (Some userID) (Some sreq) = (Failure 400 ''Invalid material type'', s))
   \<and> (materialRates itemType = None \<longrightarrow> CalculatePoints itemType weight = 0)
   \<and> materialRates ''plastic'' = Some 10
   \<and> \<not> f64_le_zero (Finite 7205759403792794 (- 57))
   \<and> CalculatePoints ''plastic'' (Finite 7205759403792794 (- 57)) = 0
   \<and> (reachable s
    \<longrightarrow> list_all (\<lambda>t. t_type t = ''deposit'' \<longrightarrow> t_points_earned t \<noteq> 0) (transactions s))"
proof -
  have a: "createTransaction s (Some userID) (Some req) = (Failure 400 ''Invalid item type'', s)"
    "processDeposit s (Some userID) (Some req) = (Failure 400 ''Invalid item type'', s)"
    if "CalculatePoints (d_ItemType req) (d_Weight req) = 0"
    using that by (simp_all add: createTransaction_def processDeposit_def)
  have b: "deposit s (Some userID) (Some sreq) = (Failure 400 ''Invalid material type'', s)"
    if "select_session s (sd_SessionToken sreq) = Some row" "ss_user_id row = Some userID"
      "sd_Material sreq \<noteq> []" "\<not> f64_le_zero (sd_Weight sreq)" "sd_SessionToken sreq \<noteq> []"
      "CalculatePoints (sd_Material sreq) (sd_Weight sreq) = 0"
    using that by (simp add: deposit_def)
  have c: "CalculatePoints itemType weight = 0" if "materialRates itemType = None"
    using that by (simp add: CalculatePoints_def)
  have d: "materialRates ''plastic'' = Some 10"
    by (simp add: materialRates_def)
  have e: "CalculatePoints ''plastic'' (Finite 7205759403792794 (- 57)) = 0"
    by (simp add: f64_eval)
  have f: "list_all (\<lambda>t. t_type t = ''deposit'' \<longrightarrow> t_points_earned t \<noteq> 0) (transactions s)"
    if "reachable s"
    using reachable_entries_nonzero [OF that] by (simp add: list_all_iff)
  show ?thesis
    using a b c d e f by simp
qed

theorem zero_points_rejected_witness:
  "CalculatePoints ''plastic'' (Finite 7205759403792794 (- 57)) = 0
   \<and> createTransaction scenario_bound (Some 1)
        (Some \<lparr>d_ItemType = ''plastic'', d_Weight = Finite 7205759403792794 (- 57)\<rparr>)
      = (Failure 400 ''Invalid item type'', scenario_bound)
   \<and> createTransaction scenario_bound (Some 1)
        (Some \<lparr>d_ItemType = ''wood'', d_Weight = Finite 2 0\<rparr>)
      = (Failure 400 ''Invalid item type'', scenario_bound)
   \<and> deposit scenario_bound (Some 1)
        (Some \<lparr>sd_Material = ''plastic'', sd_Weight = Finite 7205759403792794 (- 57),
               sd_SessionToken = ''token-1''\<rparr>)
      = (Failure 400 ''Invalid material type'', scenario_bound)
   \<and> deposit scenario_bound (Some 1)
        (Some \<lparr>sd_Material = ''wood'', sd_Weight = Finite 2 0, sd_SessionToken = ''token-1''\<rparr>)
      = (Failure 400 ''Invalid material type'', scenario_bound)
   \<and> reachable scenario_deposited
   \<and> list_all (\<lambda>t. t_type t = ''deposit'' \<longrightarrow> t_points_earned t \<noteq> 0)
        (transactions scenario_deposited)"
proof -
  let ?row = "\<lparr>ss_id = 1, ss_session_token = ''token-1'', ss_station_id = ''default'',
         ss_user_id = Some 1, ss_status = ''connected'', ss_auth_token = Some ''jwt-1'',
         ss_expires_at = 300000000000, ss_ended_at = None\<rparr>"
  let ?small = "Finite 7205759403792794 (- 57)"
  have z: "CalculatePoints ''plastic'' ?small = 0"
    by (simp add: f64_eval)
  have w: "materialRates ''wood'' = None"
    by (simp add: materialRates_def)
  have zw: "CalculatePoints ''wood'' (Finite 2 0) = 0"
    using w zero_points_rejected [where itemType = "''wood''" and weight = "Finite 2 0"] by blast
  have sel: "select_session scenario_bound ''token-1'' = Some ?row"
    by (simp add: scenario_bound_eq select_session_def)
  have r: "reachable scenario_deposited"
    by (rule reachable_scenario)
  have c1: "createTransaction scenario_bound (Some 1)
        (Some \<lparr>d_ItemType = ''plastic'', d_Weight = ?small\<rparr>)
      = (Failure 400 ''Invalid item type'', scenario_bound)"
    using z zero_points_rejected
      [where req = "\<lparr>d_ItemType = ''plastic'', d_Weight = ?small\<rparr>"
         and s = scenario_bound and userID = 1]
    by simp
  have c2: "createTransaction scenario_bound (Some 1)
        (Some \<lparr>d_ItemType = ''wood'', d_Weight = Finite 2 0\<rparr>)
      = (Failure 400 ''Invalid item type'', scenario_bound)"
    using zw zero_points_rejected
      [where req = "\<lparr>d_ItemType = ''wood'', d_Weight = Finite 2 0\<rparr>"
         and s = scenario_bound and userID = 1]
    by simp
  have d1: "deposit scenario_bound (Some 1)
        (Some \<lparr>sd_Material = ''plastic'', sd_Weight = ?small, sd_SessionToken = ''token-1''\<rparr>)
      = (Failure 400 ''Invalid material type'', scenario_bound)"
    using z sel zero_points_rejected
      [where s = scenario_bound and userID = 1 and row = ?row and sreq =
          "\<lparr>sd_Material = ''plastic'', sd_Weight = ?small, sd_SessionToken = ''token-1''\<rparr>"]
    by simp
  have d2: "deposit scenario_bound (Some 1)
        (Some \<lparr>sd_Material = ''wood'', sd_Weight = Finite 2 0, sd_SessionToken = ''token-1''\<rparr>)
      = (Failure 400 ''Invalid material type'', scenario_bound)"
    using zw sel zero_points_rejected
      [where s = scenario_bound and userID = 1 and row = ?row and sreq =
          "\<lparr>sd_Material = ''wood'', sd_Weight = Finite 2 0, sd_SessionToken = ''token-1''\<rparr>"]
    by simp
  have inv: "list_all (\<lambda>t. t_type t = ''deposit'' \<longrightarrow> t_points_earned t \<noteq> 0)
        (transactions scenario_deposited)"
    using r zero_points_rejected [where s = scenario_deposited] by blast
  show ?thesis
    using z c1 c2 d1 d2 r inv by blast
qed


section \<open>Binding a session\<close>

text \<open>When the handler runs alone, a session that has a user stays as it is: every
  further \<^verbatim>\<open>connectSession\<close> fails, with the conflict 409 once the request is well-formed,
  the credential accepted and the deadline not passed.\<close>

lemma connectSession_alone_conflict:
  "select_session s (cs_SessionToken req) = Some row \<and> ss_user_id row = Some u
   \<longrightarrow> snd (connectSession s now verifyJWT (Some req)) = s
     \<and> (\<exists>code err. fst (connectSession s now verifyJWT (Some req)) = Failure code err)
     \<and> (cs_SessionToken req \<noteq> [] \<and> cs_AuthToken req \<noteq> []
          \<and> verifyJWT (cs_AuthToken req) \<noteq> None \<and> \<not> ss_expires_at row < now
        \<longrightarrow> connectSession s now verifyJWT (Some req)
            = (Failure 409 ''Session is already connected to a user'', s))"
  by (auto simp: connectSession_def connectSession_select_def split: option.splits)

text \<open>
  Claim C6 at its failing input.  Two binds of the pending session of the scenario are in
  flight, by user 1 and by user 2.  Both \<^verbatim>\<open>SELECT\<close>s run before either \<^verbatim>\<open>UPDATE\<close>, so
  both find the session without a user and decide to bind it.  The \<^verbatim>\<open>UPDATE\<close> of user 1
  answers 200 and binds the session to user 1; the \<^verbatim>\<open>UPDATE\<close> of user 2, which selects
  the row by its id alone, answers 200 as well and binds the session to user 2.
\<close>

theorem connectSession_race_takeover:
  "bound_user scenario_created ''token-1'' = None
   \<and> connectSession_select scenario_created 1 scenario_verifyJWT
        (Some \<lparr>cs_SessionToken = ''token-1'', cs_AuthToken = ''jwt-1''\<rparr>)
      = Inr (1, 1, ''jwt-1'')
   \<and> connectSession_select scenario_created 1 scenario_verifyJWT
        (Some \<lparr>cs_SessionToken = ''token-1'', cs_AuthToken = ''jwt-2''\<rparr>)
      = Inr (1, 2, ''jwt-2'')
   \<and> connectSession_update scenario_created (1, 1, ''jwt-1'')
      = (Success 200 ''User connected to station session'' NoData, race_first)
   \<and> bound_user race_first ''token-1'' = Some 1
   \<and> connectSession_update race_first (1, 2, ''jwt-2'')
      = (Success 200 ''User connected to station session'' NoData, race_second)
   \<and> bound_user race_second ''token-1'' = Some 2"
  by (simp add: race_second_def race_first_def scenario_created_eq InitDB_empty
      scenario_verifyJWT_def bound_user_def db_eval)

end
